theory Spec2Isabelle
  imports Complex_Main "HOL-Library.Word"
begin

unbundle bit_operations_syntax

section \<open>Python values, type descriptors and errors\<close>

text \<open>
  The binder of \<^verbatim>\<open>config_binder/binder.py\<close> walks an untyped tree (the result of
  \<^verbatim>\<open>yaml.load\<close> or \<^verbatim>\<open>json.loads\<close>) along a type hint. Both are modelled as
  datatypes. A Python \<^verbatim>\<open>float\<close> is a C double: 64 bits in IEEE 754 binary64.
\<close>

type_synonym pyfloat = "64 word"

text \<open>The list \<^verbatim>\<open>primitive_types = [bool, int, float, NoneType, str]\<close>, as a type.\<close>

datatype prim_ty = TBool | TInt | TFloat | TNoneType | TStr

datatype scalar = SNone | SBool bool | SInt int | SFloat pyfloat | SStr string

text \<open>
  A dict is the list of its items, in insertion order; a set is the list of its
  elements in iteration order; an instance of a class is the class name with its
  attributes in the order they were set.
\<close>

datatype pyval =
    Scalar scalar
  | PList "pyval list"
  | PTuple "pyval list"
  | PSet "pyval list"
  | PDict "(pyval \<times> pyval) list"
  | PObj string "(string \<times> pyval) list"

abbreviation PNone :: pyval where "PNone \<equiv> Scalar SNone"
abbreviation PBool :: "bool \<Rightarrow> pyval" where "PBool b \<equiv> Scalar (SBool b)"
abbreviation PInt :: "int \<Rightarrow> pyval" where "PInt n \<equiv> Scalar (SInt n)"
abbreviation PFloat :: "pyfloat \<Rightarrow> pyval" where "PFloat f \<equiv> Scalar (SFloat f)"
abbreviation PStr :: "string \<Rightarrow> pyval" where "PStr s \<equiv> Scalar (SStr s)"

text \<open>
  A type hint: a primitive type, a class with its annotations (the result of
  \<^verbatim>\<open>get_type_hints\<close>, in declaration order), or a generic alias with its
  \<^verbatim>\<open>__args__\<close>: \<^verbatim>\<open>List[t]\<close>, \<^verbatim>\<open>Set[t]\<close>, \<^verbatim>\<open>Tuple[t1, ..., tn]\<close>, \<^verbatim>\<open>Dict[k, v]\<close>,
  \<^verbatim>\<open>Literal[a1, ..., an]\<close>, \<^verbatim>\<open>Union[t1, ..., tn]\<close>.
\<close>

datatype ty =
    Prim prim_ty
  | Class string "(string \<times> ty) list"
  | ListT ty
  | SetT ty
  | TupleT "ty list"
  | DictT ty ty
  | LiteralT "scalar list"
  | UnionT "ty list"

text \<open>
  Exceptions. A builtin exception is kept by its class; a \<^verbatim>\<open>ValidationError\<close> carries
  its message, kept as the format string used (the constructor) with the values
  interpolated into it (the arguments).
\<close>

datatype error =
    TypeError
  | ValueError
  | AttributeError
  | OverflowError
  | SyntaxError
  | ValidationError msg
and msg =
    CannotBindValue pyval prim_ty
  | FailedToBindField string error
  | OnlyStrKeys ty
  | CannotBindLiteral pyval "scalar list"
  | CannotBindUnion pyval "ty list"

text \<open>\<^verbatim>\<open>isinstance(ex, ValidationError)\<close>, which is what \<^verbatim>\<open>pytest.raises(ValidationError)\<close> tests.\<close>

fun is_validation_error :: "error \<Rightarrow> bool" where
  "is_validation_error (ValidationError m) = True"
| "is_validation_error ex = False"

text \<open>
  The builtins the binder calls and this theory does not define: \<^verbatim>\<open>float(s)\<close> of a
  string, \<^verbatim>\<open>float(n)\<close> of an int, \<^verbatim>\<open>str(x)\<close> of a value that is not \<^verbatim>\<open>None\<close>, a bool
  or a string, and \<^verbatim>\<open>ast.literal_eval(s)\<close>. Every function of the binder takes them as
  its first argument.
\<close>

record builtins =
  float_of_str :: "string \<Rightarrow> error + pyfloat"
  float_of_int :: "int \<Rightarrow> error + pyfloat"
  str_of :: "pyval \<Rightarrow> error + string"
  literal_eval :: "string \<Rightarrow> error + pyval"

section \<open>Builtins that are defined here\<close>

text \<open>\<^verbatim>\<open>type(x)\<close>, for the comparison \<^verbatim>\<open>type(field_data) is field_type\<close> with a primitive type.\<close>

fun scalar_type :: "scalar \<Rightarrow> prim_ty" where
  "scalar_type SNone = TNoneType"
| "scalar_type (SBool b) = TBool"
| "scalar_type (SInt n) = TInt"
| "scalar_type (SFloat f) = TFloat"
| "scalar_type (SStr s) = TStr"

fun py_type :: "pyval \<Rightarrow> prim_ty option" where
  "py_type (Scalar s) = Some (scalar_type s)"
| "py_type v = None"

text \<open>
  \<^verbatim>\<open>str.lower()\<close> on the ASCII letters. No character outside ASCII lowers to a letter
  of \<^verbatim>\<open>true\<close> or \<^verbatim>\<open>false\<close>, which are the only strings the result is compared with.
\<close>

definition lower_char :: "char \<Rightarrow> char" where
  "lower_char c =
     (let n = of_char c :: nat in if 65 \<le> n \<and> n \<le> 90 then char_of (n + 32) else c)"

definition lower :: "string \<Rightarrow> string" where
  "lower s = map lower_char s"

text \<open>\<^verbatim>\<open>str(b)\<close> of a bool.\<close>

definition str_bool :: "bool \<Rightarrow> string" where
  "str_bool b = (if b then ''True'' else ''False'')"

text \<open>\<^verbatim>\<open>str(x)\<close>.\<close>

fun py_str :: "builtins \<Rightarrow> pyval \<Rightarrow> error + string" where
  "py_str B (Scalar SNone) = Inr ''None''"
| "py_str B (Scalar (SBool b)) = Inr (str_bool b)"
| "py_str B (Scalar (SStr s)) = Inr s"
| "py_str B v = str_of B v"

text \<open>The double of a bool: \<^verbatim>\<open>float(True)\<close> is 1.0 and \<^verbatim>\<open>float(False)\<close> is 0.0.\<close>

definition float_bool :: "bool \<Rightarrow> pyfloat" where
  "float_bool b = (if b then 0x3FF0000000000000 else 0)"

text \<open>\<^verbatim>\<open>float(x)\<close>: a TypeError for what is neither a number nor a string.\<close>

fun py_float :: "builtins \<Rightarrow> pyval \<Rightarrow> error + pyfloat" where
  "py_float B (Scalar (SStr s)) = float_of_str B s"
| "py_float B (Scalar (SInt n)) = float_of_int B n"
| "py_float B (Scalar (SFloat f)) = Inr f"
| "py_float B (Scalar (SBool b)) = Inr (float_bool b)"
| "py_float B v = Inl TypeError"

text \<open>The fields of a double: sign, biased exponent, fraction.\<close>

definition float_sign :: "pyfloat \<Rightarrow> bool" where
  "float_sign f = bit f 63"

definition float_exp :: "pyfloat \<Rightarrow> nat" where
  "float_exp f = unat (drop_bit 52 f AND 0x7FF)"

definition float_frac :: "pyfloat \<Rightarrow> nat" where
  "float_frac f = unat (f AND 0xFFFFFFFFFFFFF)"

text \<open>
  \<^verbatim>\<open>int(f)\<close> of a float: truncation towards zero, an OverflowError for an infinity and
  a ValueError for a NaN.
\<close>

definition py_int_of_float :: "pyfloat \<Rightarrow> error + int" where
  "py_int_of_float f =
     (let e = float_exp f; m = float_frac f in
      if e = 2047 then (if m = 0 then Inl OverflowError else Inl ValueError)
      else
        let mag = (if e = 0 then 0
                   else if 1075 \<le> e then (2 ^ 52 + m) * 2 ^ (e - 1075)
                   else (2 ^ 52 + m) div 2 ^ (1075 - e))
        in Inr (if float_sign f then - int mag else int mag))"

text \<open>The number a scalar stands for in a comparison, \<^verbatim>\<open>None\<close> and strings having none.\<close>

datatype numv = Fin rat | PosInf | NegInf | NaN

definition float_num :: "pyfloat \<Rightarrow> numv" where
  "float_num f =
     (let e = float_exp f; m = float_frac f in
      if e = 2047 then (if m \<noteq> 0 then NaN else if float_sign f then NegInf else PosInf)
      else
        let mant = (if e = 0 then m else 2 ^ 52 + m); ex = (if e = 0 then 1 else e);
            mag = (if 1075 \<le> ex then of_nat (mant * 2 ^ (ex - 1075))
                   else of_nat mant / of_nat (2 ^ (1075 - ex)))
        in Fin (if float_sign f then - mag else mag))"

fun scalar_num :: "scalar \<Rightarrow> numv option" where
  "scalar_num (SBool b) = Some (Fin (if b then 1 else 0))"
| "scalar_num (SInt n) = Some (Fin (of_int n))"
| "scalar_num (SFloat f) = Some (float_num f)"
| "scalar_num s = None"

text \<open>\<^verbatim>\<open>a == b\<close> on scalars: numbers by value (a NaN equals nothing), strings by content.\<close>

fun py_eq :: "scalar \<Rightarrow> scalar \<Rightarrow> bool" where
  "py_eq SNone SNone = True"
| "py_eq (SStr s) (SStr t) = (s = t)"
| "py_eq a b =
     (case (scalar_num a, scalar_num b) of
        (Some x, Some y) \<Rightarrow> x \<noteq> NaN \<and> x = y
      | _ \<Rightarrow> False)"

section \<open>Control flow: exceptions as values\<close>

text \<open>A list comprehension whose body may raise: the first exception ends it.\<close>

fun mapM :: "('a \<Rightarrow> error + 'b) \<Rightarrow> 'a list \<Rightarrow> error + 'b list" where
  "mapM f [] = Inr []"
| "mapM f (x # xs) =
     (case f x of
        Inl e \<Rightarrow> Inl e
      | Inr y \<Rightarrow> (case mapM f xs of Inl e \<Rightarrow> Inl e | Inr ys \<Rightarrow> Inr (y # ys)))"

text \<open>
  The loop \<^verbatim>\<open>for x in xs: try: return f(x) except Exception: pass\<close>: the first result
  that is not an exception, if there is one.
\<close>

fun first_success :: "('a \<Rightarrow> error + 'b) \<Rightarrow> 'a list \<Rightarrow> 'b option" where
  "first_success f [] = None"
| "first_success f (x # xs) =
     (case f x of Inr v \<Rightarrow> Some v | Inl e \<Rightarrow> first_success f xs)"

lemma mapM_cong [fundef_cong]:
  "xs = ys \<Longrightarrow> (\<And>x. x \<in> set ys \<Longrightarrow> f x = g x) \<Longrightarrow> mapM f xs = mapM g ys"
  by (induction ys arbitrary: xs) (auto split: sum.splits)

lemma first_success_cong [fundef_cong]:
  "xs = ys \<Longrightarrow> (\<And>x. x \<in> set ys \<Longrightarrow> f x = g x) \<Longrightarrow> first_success f xs = first_success g ys"
  by (induction ys arbitrary: xs) (auto split: sum.splits)

section \<open>Access to the input\<close>

text \<open>
  \<^verbatim>\<open>data.get(field_name)\<close>: the value of the key that is this string (no value of
  another type equals a string), \<^verbatim>\<open>None\<close> for a missing key, an AttributeError when
  \<^verbatim>\<open>data\<close> is not a dict.
\<close>

fun dict_get :: "pyval \<Rightarrow> string \<Rightarrow> error + pyval" where
  "dict_get (PDict kvs) k =
     (case map_of kvs (PStr k) of None \<Rightarrow> Inr PNone | Some v \<Rightarrow> Inr v)"
| "dict_get v k = Inl AttributeError"

text \<open>\<^verbatim>\<open>field_data.items()\<close>.\<close>

fun dict_items :: "pyval \<Rightarrow> error + (pyval \<times> pyval) list" where
  "dict_items (PDict kvs) = Inr kvs"
| "dict_items v = Inl AttributeError"

text \<open>
  \<^verbatim>\<open>for item in field_data\<close>: the elements of a list, tuple or set, the characters of a
  string (its bytes here, which are its characters when it is ASCII), the keys of a
  dict; a TypeError for anything else.
\<close>

fun py_iter :: "pyval \<Rightarrow> error + pyval list" where
  "py_iter (PList xs) = Inr xs"
| "py_iter (PTuple xs) = Inr xs"
| "py_iter (PSet xs) = Inr xs"
| "py_iter (PDict kvs) = Inr (map fst kvs)"
| "py_iter (Scalar (SStr s)) = Inr (map (\<lambda>c. PStr [c]) s)"
| "py_iter v = Inl TypeError"

text \<open>
  \<^verbatim>\<open>set(xs)\<close>: the elements without those equal to an earlier one, kept here in the
  order of \<^verbatim>\<open>xs\<close> (Python fixes no order). Scalars are equal as \<^verbatim>\<open>==\<close> says; two
  instances built by two calls of the binder are two objects, and an object of a class
  that defines no \<^verbatim>\<open>__eq__\<close> equals nothing but itself; a list, a set or a dict is
  unhashable, which is a TypeError.
\<close>

fun hashable :: "pyval \<Rightarrow> bool" where
  "hashable (Scalar s) = True"
| "hashable (PObj c kw) = True"
| "hashable (PTuple xs) = list_all hashable xs"
| "hashable v = False"

fun py_val_eq :: "pyval \<Rightarrow> pyval \<Rightarrow> bool" where
  "py_val_eq (Scalar a) (Scalar b) = py_eq a b"
| "py_val_eq (PTuple xs) (PTuple ys) = list_all2 py_val_eq xs ys"
| "py_val_eq v w = False"

definition set_add :: "pyval list \<Rightarrow> pyval \<Rightarrow> pyval list" where
  "set_add acc x = (if list_ex (\<lambda>y. py_val_eq y x) acc then acc else acc @ [x])"

definition py_set :: "pyval list \<Rightarrow> error + pyval" where
  "py_set xs = (if list_all hashable xs then Inr (PSet (foldl set_add [] xs)) else Inl TypeError)"

section \<open>The binder\<close>

text \<open>
  The messages. An f-string that interpolates a value calls \<^verbatim>\<open>str\<close> on it, and the
  \<^verbatim>\<open>str\<close> of a tuple calls \<^verbatim>\<open>repr\<close> on its elements; either may raise (the \<^verbatim>\<open>str\<close> and
  the \<^verbatim>\<open>repr\<close> of an int of more than 4300 digits is a ValueError), and then that
  exception is raised in place of the ValidationError whose message was being built.
  \<^verbatim>\<open>fmt\<close> is the exception of \<^verbatim>\<open>f"{v}"\<close>, if there is one. The \<^verbatim>\<open>repr\<close> of a string does
  not raise, and the \<^verbatim>\<open>repr\<close> of any other scalar is its \<^verbatim>\<open>str\<close>. The \<^verbatim>\<open>repr\<close> of a type
  hint raises only through the \<^verbatim>\<open>repr\<close> of a value of a \<^verbatim>\<open>Literal\<close> in it; a name
  (\<^verbatim>\<open>__name__\<close> of a type or of a generic alias, the name of a field) and the
  \<^verbatim>\<open>__str__\<close> of an exception raised here do not raise.
\<close>

definition fmt :: "builtins \<Rightarrow> pyval \<Rightarrow> error option" where
  "fmt B v = (case py_str B v of Inl ex \<Rightarrow> Some ex | Inr s \<Rightarrow> None)"

fun first_error :: "error option list \<Rightarrow> error option" where
  "first_error [] = None"
| "first_error (None # es) = first_error es"
| "first_error (Some ex # es) = Some ex"

definition repr_scalar :: "builtins \<Rightarrow> scalar \<Rightarrow> error option" where
  "repr_scalar B a = (case a of SStr s \<Rightarrow> None | _ \<Rightarrow> fmt B (Scalar a))"

fun repr_type :: "builtins \<Rightarrow> ty \<Rightarrow> error option" where
  "repr_type B (Prim p) = None"
| "repr_type B (Class c hints) = None"
| "repr_type B (ListT t) = repr_type B t"
| "repr_type B (SetT t) = repr_type B t"
| "repr_type B (TupleT ts) = first_error (map (repr_type B) ts)"
| "repr_type B (DictT k v) = first_error [repr_type B k, repr_type B v]"
| "repr_type B (LiteralT args) = first_error (map (repr_scalar B) args)"
| "repr_type B (UnionT ts) = first_error (map (repr_type B) ts)"

text \<open>
  \<^verbatim>\<open>raise ValidationError(f"...")\<close>: the exception of building the message if there is
  one, and else the ValidationError.
\<close>

definition raise_validation_error :: "error option \<Rightarrow> msg \<Rightarrow> error" where
  "raise_validation_error formatting m =
     (case formatting of Some ex \<Rightarrow> ex | None \<Rightarrow> ValidationError m)"

text \<open>
  \<^verbatim>\<open>__bind_simple_type\<close>. A value of the very type asked for is returned as it is.
  Otherwise a bool is replaced by its string, and \<^verbatim>\<open>coerce\<close> is the chain of \<^verbatim>\<open>if\<close>s on
  \<^verbatim>\<open>field_type\<close>: \<^verbatim>\<open>int(float(field_data))\<close>; the strings \<^verbatim>\<open>true\<close> and \<^verbatim>\<open>false\<close> in any
  case, and \<^verbatim>\<open>raise ValueError()\<close>; \<^verbatim>\<open>None\<close> when \<^verbatim>\<open>ast.literal_eval(str(field_data))\<close>
  is \<^verbatim>\<open>None\<close>, and else \<^verbatim>\<open>NoneType(field_data)\<close>, a TypeError; \<^verbatim>\<open>float(field_data)\<close>;
  \<^verbatim>\<open>str(field_data)\<close>. The \<^verbatim>\<open>except (TypeError, ValueError)\<close> around the body raises,
  for these two, the ValidationError whose message has the value (a bool already
  replaced by its string) and the name of the type; an exception of building that
  message is raised from the handler and is not caught by it. Any other exception of
  the body (an OverflowError of \<^verbatim>\<open>int\<close> or \<^verbatim>\<open>float\<close>, a SyntaxError of
  \<^verbatim>\<open>ast.literal_eval\<close>) passes.
\<close>

definition coercion_error :: "builtins \<Rightarrow> pyval \<Rightarrow> prim_ty \<Rightarrow> error + 'a \<Rightarrow> error + 'a" where
  "coercion_error B field_data field_type r =
     (case r of
        Inl TypeError \<Rightarrow>
          Inl (raise_validation_error (fmt B field_data) (CannotBindValue field_data field_type))
      | Inl ValueError \<Rightarrow>
          Inl (raise_validation_error (fmt B field_data) (CannotBindValue field_data field_type))
      | _ \<Rightarrow> r)"

definition stringify_bool :: "pyval \<Rightarrow> pyval" where
  "stringify_bool field_data =
     (case field_data of Scalar (SBool b) \<Rightarrow> PStr (str_bool b) | _ \<Rightarrow> field_data)"

definition coerce :: "builtins \<Rightarrow> pyval \<Rightarrow> prim_ty \<Rightarrow> error + pyval" where
  "coerce B field_data field_type =
     (case field_type of
        TInt \<Rightarrow>
          (case py_float B field_data of
             Inl e \<Rightarrow> Inl e
           | Inr f \<Rightarrow> (case py_int_of_float f of Inl e \<Rightarrow> Inl e | Inr n \<Rightarrow> Inr (PInt n)))
      | TBool \<Rightarrow>
          (case field_data of
             Scalar (SStr s) \<Rightarrow>
               (if lower s = ''true'' then Inr (PBool True)
                else if lower s = ''false'' then Inr (PBool False)
                else Inl ValueError)
           | _ \<Rightarrow> Inl ValueError)
      | TNoneType \<Rightarrow>
          (case py_str B field_data of
             Inl e \<Rightarrow> Inl e
           | Inr s \<Rightarrow>
               (case literal_eval B s of
                  Inl e \<Rightarrow> Inl e
                | Inr v \<Rightarrow> (if v = PNone then Inr PNone else Inl TypeError)))
      | TFloat \<Rightarrow> (case py_float B field_data of Inl e \<Rightarrow> Inl e | Inr f \<Rightarrow> Inr (PFloat f))
      | TStr \<Rightarrow> (case py_str B field_data of Inl e \<Rightarrow> Inl e | Inr s \<Rightarrow> Inr (PStr s)))"

definition bind_simple_type :: "builtins \<Rightarrow> pyval \<Rightarrow> prim_ty \<Rightarrow> error + pyval" where
  "bind_simple_type B field_data field_type =
     (if py_type field_data = Some field_type then Inr field_data
      else
        let field_data = stringify_bool field_data
        in coercion_error B field_data field_type (coerce B field_data field_type))"

text \<open>
  \<^verbatim>\<open>__bind_literal\<close>: the loop over \<^verbatim>\<open>field_type.__args__\<close>, with \<^verbatim>\<open>except Exception: pass\<close>
  around each candidate, and after the loop the ValidationError, whose message has the
  value and the tuple of the allowed values.
\<close>

fun literal_loop :: "builtins \<Rightarrow> pyval \<Rightarrow> scalar list \<Rightarrow> pyval option" where
  "literal_loop B field_data [] = None"
| "literal_loop B field_data (possible_arg # args) =
     (case bind_simple_type B field_data (scalar_type possible_arg) of
        Inr bind \<Rightarrow>
          (if py_val_eq bind (Scalar possible_arg) then Some bind
           else literal_loop B field_data args)
      | Inl ex \<Rightarrow> literal_loop B field_data args)"

definition bind_literal :: "builtins \<Rightarrow> pyval \<Rightarrow> scalar list \<Rightarrow> error + pyval" where
  "bind_literal B field_data args =
     (case literal_loop B field_data args of
        Some bind \<Rightarrow> Inr bind
      | None \<Rightarrow>
          Inl (raise_validation_error
                 (first_error (fmt B field_data # map (repr_scalar B) args))
                 (CannotBindLiteral field_data args)))"

text \<open>
  \<^verbatim>\<open>primitive_types.index(t)\<close>, the sort key of the primitive alternatives of a Union.
\<close>

fun primitive_index :: "prim_ty \<Rightarrow> nat" where
  "primitive_index TBool = 0"
| "primitive_index TInt = 1"
| "primitive_index TFloat = 2"
| "primitive_index TNoneType = 3"
| "primitive_index TStr = 4"

text \<open>\<^verbatim>\<open>ft in primitive_types\<close>, and the primitive alternatives as primitive types.\<close>

fun is_primitive :: "ty \<Rightarrow> bool" where
  "is_primitive (Prim p) = True"
| "is_primitive t = False"

fun primitives_of :: "ty list \<Rightarrow> prim_ty list" where
  "primitives_of [] = []"
| "primitives_of (Prim p # ts) = p # primitives_of ts"
| "primitives_of (t # ts) = primitives_of ts"

text \<open>
  \<^verbatim>\<open>__if_custom_class\<close>: only a class has \<^verbatim>\<open>__annotations__\<close> (a builtin type and a
  generic alias have none).
\<close>

fun if_custom_class :: "ty \<Rightarrow> bool" where
  "if_custom_class (Class c hints) = True"
| "if_custom_class t = False"

text \<open>
  \<^verbatim>\<open>clazz()\<close> of a primitive type, which is what \<^verbatim>\<open>__bind_class\<close> returns for a type
  with no annotations of its own. No caller passes one: each tests
  \<^verbatim>\<open>primitive_types\<close> first.
\<close>

fun prim_new :: "prim_ty \<Rightarrow> pyval" where
  "prim_new TBool = PBool False"
| "prim_new TInt = PInt 0"
| "prim_new TFloat = PFloat 0"
| "prim_new TNoneType = PNone"
| "prim_new TStr = PStr []"

text \<open>
  The except clause of the loop of \<^verbatim>\<open>__bind_class\<close>: every exception of a field becomes
  a ValidationError that names the field.
\<close>

definition field_error :: "string \<Rightarrow> error + pyval \<Rightarrow> error + (string \<times> pyval)" where
  "field_error field_name r =
     (case r of
        Inl ex \<Rightarrow> Inl (ValidationError (FailedToBindField field_name ex))
      | Inr v \<Rightarrow> Inr (field_name, v))"

text \<open>A part of a type hint is smaller than the type hint.\<close>

lemma size_hint_less:
  "(n :: string, t :: ty) \<in> set hints \<Longrightarrow> size t < size_list (size_prod (\<lambda>_. 0) size) hints"
  by (induction hints) auto

lemma size_arg_less: "t \<in> set (args :: ty list) \<Longrightarrow> size t < size_list size args"
  by (induction args) auto

text \<open>
  The recursion of the binder. \<^verbatim>\<open>bind_field\<close> is the body of the \<^verbatim>\<open>try\<close> in the loop
  of \<^verbatim>\<open>__bind_class\<close>, after the lookup of the field. The functions for the generic
  aliases take the \<^verbatim>\<open>__args__\<close> (and \<^verbatim>\<open>bind_set_list\<close> the \<^verbatim>\<open>__origin__\<close>, as the
  constructor of the result) that the source reads from \<^verbatim>\<open>field_type\<close>.

  \<^verbatim>\<open>__bind_class\<close> on a generic alias: \<^verbatim>\<open>get_type_hints\<close> raises a TypeError. On a
  class: the instance has every annotated field, by \<^verbatim>\<open>clazz(**kw_fields)\<close> or, when the
  class takes no such arguments, by \<^verbatim>\<open>setattr\<close> on a new instance.
\<close>

function (sequential) bind :: "builtins \<Rightarrow> pyval \<Rightarrow> ty \<Rightarrow> error + pyval"
  and bind_class :: "builtins \<Rightarrow> pyval \<Rightarrow> ty \<Rightarrow> error + pyval"
  and bind_field :: "builtins \<Rightarrow> pyval \<Rightarrow> ty \<Rightarrow> error + pyval"
  and bind_set_list :: "builtins \<Rightarrow> pyval \<Rightarrow> (pyval list \<Rightarrow> error + pyval) \<Rightarrow> ty \<Rightarrow> error + pyval"
  and bind_tuple :: "builtins \<Rightarrow> pyval \<Rightarrow> ty list \<Rightarrow> error + pyval"
  and bind_dict :: "builtins \<Rightarrow> pyval \<Rightarrow> ty \<Rightarrow> ty \<Rightarrow> error + pyval"
  and bind_union :: "builtins \<Rightarrow> pyval \<Rightarrow> ty list \<Rightarrow> error + pyval"
where
  "bind B data clazz =
     (case clazz of
        Prim p \<Rightarrow> bind_simple_type B data p
      | _ \<Rightarrow> bind_class B data clazz)"
| "bind_class B data (Class c type_hints) =
     (case mapM (\<lambda>(field_name, field_type).
                   field_error field_name
                     (case dict_get data field_name of
                        Inl ex \<Rightarrow> Inl ex
                      | Inr field_data \<Rightarrow> bind_field B field_data field_type))
                type_hints of
        Inl ex \<Rightarrow> Inl ex
      | Inr kw_fields \<Rightarrow> Inr (PObj c kw_fields))"
| "bind_class B data (Prim p) = Inr (prim_new p)"
| "bind_class B data clazz = Inl TypeError"
| "bind_field B field_data (Class c type_hints) = bind_class B field_data (Class c type_hints)"
| "bind_field B field_data (ListT item_type) =
     bind_set_list B field_data (\<lambda>xs. Inr (PList xs)) item_type"
| "bind_field B field_data (SetT item_type) = bind_set_list B field_data py_set item_type"
| "bind_field B field_data (TupleT args) = bind_tuple B field_data args"
| "bind_field B field_data (DictT key_type value_type) =
     bind_dict B field_data key_type value_type"
| "bind_field B field_data (LiteralT args) = bind_literal B field_data args"
| "bind_field B field_data (UnionT field_types) = bind_union B field_data field_types"
| "bind_field B field_data (Prim p) = bind_simple_type B field_data p"
| "bind_set_list B field_data origin item_type =
     (case py_iter field_data of
        Inl ex \<Rightarrow> Inl ex
      | Inr items \<Rightarrow>
          (case mapM (\<lambda>item. bind B item item_type) items of
             Inl ex \<Rightarrow> Inl ex
           | Inr xs \<Rightarrow> origin xs))"
| "bind_tuple B field_data args =
     (case py_iter field_data of
        Inl ex \<Rightarrow> Inl ex
      | Inr items \<Rightarrow>
          (case mapM (\<lambda>(item, item_type). bind B item item_type) (zip items args) of
             Inl ex \<Rightarrow> Inl ex
           | Inr xs \<Rightarrow> Inr (PTuple xs)))"
| "bind_dict B field_data key_type value_type =
     (if key_type \<noteq> Prim TStr then Inl (ValidationError (OnlyStrKeys key_type))
      else if if_custom_class value_type then
        (case dict_items field_data of
           Inl ex \<Rightarrow> Inl ex
         | Inr items \<Rightarrow>
             (case mapM (\<lambda>(key, val).
                           (case bind_class B val value_type of
                              Inl ex \<Rightarrow> Inl ex
                            | Inr v \<Rightarrow> Inr (key, v)))
                        items of
                Inl ex \<Rightarrow> Inl ex
              | Inr kvs \<Rightarrow> Inr (PDict kvs)))
      else Inr field_data)"
| "bind_union B field_data field_types =
     (case first_success (\<lambda>field_type. bind_class B field_data field_type)
             (filter (\<lambda>ft. \<not> is_primitive ft) field_types) of
        Some v \<Rightarrow> Inr v
      | None \<Rightarrow>
          (case first_success (\<lambda>primitive_field_type.
                                 bind_simple_type B field_data primitive_field_type)
                  (sort_key primitive_index (primitives_of field_types)) of
             Some v \<Rightarrow> Inr v
           | None \<Rightarrow>
               (if Prim TStr \<in> set field_types then Inr field_data
                else Inl (raise_validation_error
                            (first_error (fmt B field_data # map (repr_type B) field_types))
                            (CannotBindUnion field_data field_types)))))"
  by pat_completeness auto

text \<open>
  Termination: a call is on a part of the type hint, or on the same type hint, and then
  from \<^verbatim>\<open>bind\<close>, \<^verbatim>\<open>bind_field\<close> or \<^verbatim>\<open>bind_dict\<close> to \<^verbatim>\<open>bind_class\<close>, or from
  \<^verbatim>\<open>bind_set_list\<close> to \<^verbatim>\<open>bind\<close>.
\<close>

termination
  apply (relation "measure (\<lambda>x. case x of
      Inl (Inl (B, d, t)) \<Rightarrow> 3 * size t + 1
    | Inl (Inr (Inl (B, d, t))) \<Rightarrow> 3 * size t
    | Inl (Inr (Inr (B, d, t))) \<Rightarrow> 3 * size t + 1
    | Inr (Inl (Inl (B, d, origin, t))) \<Rightarrow> 3 * size t + 2
    | Inr (Inl (Inr (B, d, ts))) \<Rightarrow> 3 * size_list size ts + 2
    | Inr (Inr (Inl (B, d, k, t))) \<Rightarrow> 3 * size t + 1
    | Inr (Inr (Inr (B, d, ts))) \<Rightarrow> 3 * size_list size ts + 2)")
                      apply (auto dest!: size_hint_less size_arg_less set_zip_rightD)
  done

declare bind.simps [simp del]
declare bind_set_list.simps [simp del]
declare bind_tuple.simps [simp del]
declare bind_dict.simps [simp del]
declare bind_union.simps [simp del]

lemma bind_prim [simp]: "bind B data (Prim p) = bind_simple_type B data p"
  by (simp add: bind.simps)

lemma bind_not_prim [simp]: "\<not> is_primitive clazz \<Longrightarrow> bind B data clazz = bind_class B data clazz"
  by (cases clazz) (simp_all add: bind.simps)

section \<open>Reference builtins\<close>

text \<open>
  An instance of the builtins, for running the binder on concrete inputs. It is
  CPython 3.11 on these inputs:
  \<^item> \<^verbatim>\<open>float\<close> of a string of ASCII digits with an optional sign, and of an int: the
    nearest double, ties to even (an infinity for a string, an OverflowError for an
    int, from 2 ^ 1024 on);
  \<^item> \<^verbatim>\<open>float\<close> of a string with no digit that does not spell an infinity or a NaN: a
    ValueError;
  \<^item> \<^verbatim>\<open>str\<close> of an int: its decimal notation, and a ValueError when it has more than
    4300 digits (the default of \<^verbatim>\<open>sys.set_int_max_str_digits\<close>);
  \<^item> \<^verbatim>\<open>ast.literal_eval\<close> of \<^verbatim>\<open>None\<close>, \<^verbatim>\<open>True\<close> and \<^verbatim>\<open>False\<close>.
  \<^item> \<^verbatim>\<open>str\<close> of a float, a container or an instance of a class with no \<^verbatim>\<open>__str__\<close> or
    \<^verbatim>\<open>__repr__\<close> of its own: whether it raises (a ValueError for a container that holds
    an int of more than 4300 digits). The text it returns is not CPython's.
  What it returns on any other input (a string with a fraction or an exponent, any
  other expression) is not CPython's, and no input below goes there.
\<close>

definition digit_val :: "char \<Rightarrow> nat option" where
  "digit_val c =
     (let n = of_char c :: nat in if 48 \<le> n \<and> n \<le> 57 then Some (n - 48) else None)"

fun parse_digits :: "nat \<Rightarrow> string \<Rightarrow> nat option" where
  "parse_digits acc [] = Some acc"
| "parse_digits acc (c # cs) =
     (case digit_val c of None \<Rightarrow> None | Some d \<Rightarrow> parse_digits (10 * acc + d) cs)"

text \<open>An optional sign and at least one digit: the sign (True for minus) and the magnitude.\<close>

fun parse_int :: "string \<Rightarrow> (bool \<times> nat) option" where
  "parse_int [] = None"
| "parse_int (c # cs) =
     (if c = CHR ''-'' \<or> c = CHR ''+'' then
        (if cs = [] then None else map_option (Pair (c = CHR ''-'')) (parse_digits 0 cs))
      else map_option (Pair False) (parse_digits 0 (c # cs)))"

fun bitlen :: "nat \<Rightarrow> nat" where
  "bitlen n = (if n = 0 then 0 else Suc (bitlen (n div 2)))"

declare bitlen.simps [simp del]

text \<open>
  The nearest double of a natural number, ties to even: None when it is 2 ^ 1024 or
  more after rounding.
\<close>

definition double_of_nat :: "nat \<Rightarrow> pyfloat option" where
  "double_of_nat n =
     (if n = 0 then Some 0
      else
        let e = bitlen n - 1;
            q = (if e \<le> 52 then n * 2 ^ (52 - e)
                 else
                   let sh = e - 52; q0 = n div 2 ^ sh; r = n mod 2 ^ sh; half = 2 ^ (sh - 1)
                   in if half < r \<or> (r = half \<and> odd q0) then q0 + 1 else q0);
            e' = (if q = 2 ^ 53 then e + 1 else e);
            frac = (if q = 2 ^ 53 then 0 else q - 2 ^ 52)
        in if 1023 < e' then None else Some (word_of_nat ((e' + 1023) * 2 ^ 52 + frac)))"

definition negate_float :: "bool \<Rightarrow> pyfloat \<Rightarrow> pyfloat" where
  "negate_float neg f = (if neg then f OR 0x8000000000000000 else f)"

definition float_inf :: pyfloat where
  "float_inf = 0x7FF0000000000000"

definition ref_float_of_str :: "string \<Rightarrow> error + pyfloat" where
  "ref_float_of_str s =
     (case parse_int s of
        None \<Rightarrow> Inl ValueError
      | Some (neg, n) \<Rightarrow>
          Inr (negate_float neg (case double_of_nat n of None \<Rightarrow> float_inf | Some f \<Rightarrow> f)))"

definition ref_float_of_int :: "int \<Rightarrow> error + pyfloat" where
  "ref_float_of_int n =
     (case double_of_nat (nat \<bar>n\<bar>) of
        None \<Rightarrow> Inl OverflowError
      | Some f \<Rightarrow> Inr (negate_float (n < 0) f))"

fun digits_of :: "nat \<Rightarrow> string" where
  "digits_of n =
     (if n < 10 then [char_of (48 + n)] else digits_of (n div 10) @ [char_of (48 + n mod 10)])"

declare digits_of.simps [simp del]

text \<open>More than 4300 digits.\<close>

definition over_limit :: "int \<Rightarrow> bool" where
  "over_limit n = (10 ^ 4300 \<le> \<bar>n\<bar>)"

definition str_int :: "int \<Rightarrow> error + string" where
  "str_int n =
     (if over_limit n then Inl ValueError
      else Inr ((if n < 0 then ''-'' else []) @ digits_of (nat \<bar>n\<bar>)))"

text \<open>
  Whether \<^verbatim>\<open>repr\<close> raises: on an int of more than 4300 digits, and on a container that
  holds one.
\<close>

lemma size_item_less:
  "(k :: pyval, v :: pyval) \<in> set kvs \<Longrightarrow>
     size k < size_list (size_prod size size) kvs \<and> size v < size_list (size_prod size size) kvs"
  by (induction kvs) auto

function repr_raises :: "pyval \<Rightarrow> bool" where
  "repr_raises (Scalar s) = (case s of SInt n \<Rightarrow> over_limit n | _ \<Rightarrow> False)"
| "repr_raises (PList xs) = list_ex repr_raises xs"
| "repr_raises (PTuple xs) = list_ex repr_raises xs"
| "repr_raises (PSet xs) = list_ex repr_raises xs"
| "repr_raises (PDict kvs) = list_ex (\<lambda>(k, v). repr_raises k \<or> repr_raises v) kvs"
| "repr_raises (PObj c kw) = False"
  by pat_completeness auto
termination
  by (relation "measure size") (auto dest: size_item_less simp: less_Suc_eq_le size_list_estimation')

fun ref_str_of :: "pyval \<Rightarrow> error + string" where
  "ref_str_of (Scalar (SInt n)) = str_int n"
| "ref_str_of v = (if repr_raises v then Inl ValueError else Inr ''<object>'')"

definition ref_literal_eval :: "string \<Rightarrow> error + pyval" where
  "ref_literal_eval s =
     (if s = ''None'' then Inr PNone
      else if s = ''True'' then Inr (PBool True)
      else if s = ''False'' then Inr (PBool False)
      else Inl ValueError)"

definition ref_builtins :: builtins where
  "ref_builtins =
     \<lparr>float_of_str = ref_float_of_str, float_of_int = ref_float_of_int,
      str_of = ref_str_of, literal_eval = ref_literal_eval\<rparr>"

text \<open>An int of 4301 digits, one more than \<^verbatim>\<open>str\<close> converts.\<close>

definition huge_int :: int where
  "huge_int = 10 ^ 4300"

section \<open>Facts about the control flow\<close>

lemma mapM_Inr_iff:
  "mapM f xs = Inr ys \<longleftrightarrow> length ys = length xs \<and> (\<forall>i<length xs. f (xs ! i) = Inr (ys ! i))"
proof (induction xs arbitrary: ys)
  case Nil
  then show ?case by auto
next
  case (Cons x xs)
  show ?case
  proof (cases ys)
    case Nil
    then show ?thesis by (auto split: sum.splits)
  next
    case (Cons y ys')
    then show ?thesis
      using Cons.IH [of ys'] by (auto simp: All_less_Suc2 split: sum.splits)
  qed
qed

lemma mapM_Inl_first:
  "i < length xs \<Longrightarrow> f (xs ! i) = Inl e \<Longrightarrow> (\<forall>j<i. \<exists>y. f (xs ! j) = Inr y) \<Longrightarrow> mapM f xs = Inl e"
proof (induction xs arbitrary: i)
  case Nil
  then show ?case by simp
next
  case (Cons x xs)
  show ?case
  proof (cases i)
    case 0
    with Cons.prems show ?thesis by simp
  next
    case (Suc k)
    from Cons.prems Suc have k: "k < length xs" "f (xs ! k) = Inl e" by auto
    from Cons.prems(3) Suc have "\<forall>j<k. \<exists>y. f (xs ! j) = Inr y" by auto
    with k have "mapM f xs = Inl e" by (rule Cons.IH)
    moreover from Cons.prems(3) Suc obtain y where "f x = Inr y" by force
    ultimately show ?thesis by simp
  qed
qed

lemma first_success_None_iff:
  "first_success f xs = None \<longleftrightarrow> (\<forall>x\<in>set xs. isl (f x))"
  by (induction xs) (auto split: sum.splits)

lemma first_success_sorted:
  "sorted (map k xs) \<Longrightarrow> inj k \<Longrightarrow> p \<in> set xs \<Longrightarrow> f p = Inr v
   \<Longrightarrow> (\<forall>q\<in>set xs. k q < k p \<longrightarrow> isl (f q)) \<Longrightarrow> first_success f xs = Some v"
proof (induction xs)
  case Nil
  then show ?case by simp
next
  case (Cons x xs)
  show ?case
  proof (cases "x = p")
    case True
    with Cons.prems show ?thesis by simp
  next
    case False
    with Cons.prems have "k x \<le> k p" "k x \<noteq> k p" by (auto dest: injD)
    then have "isl (f x)" using Cons.prems by auto
    moreover have "first_success f xs = Some v"
      using Cons.prems False by (intro Cons.IH) auto
    ultimately show ?thesis by (auto split: sum.splits)
  qed
qed


lemma mapM_keyed:
  "mapM (\<lambda>(k, x). case g x of Inl e \<Rightarrow> Inl e | Inr v \<Rightarrow> Inr (k, v)) kvs =
     (case mapM g (map snd kvs) of Inl e \<Rightarrow> Inl e | Inr ws \<Rightarrow> Inr (zip (map fst kvs) ws))"
  by (induction kvs) (auto split: sum.splits)

lemma mapM_unique:
  "mapM f xs = Inr ys \<Longrightarrow> length ws = length xs \<Longrightarrow> (\<forall>i<length xs. f (xs ! i) = Inr (ws ! i))
   \<Longrightarrow> ws = ys"
  by (simp add: mapM_Inr_iff nth_equalityI)

lemma mapM_Inl_no:
  "mapM f xs = Inl e \<Longrightarrow> length ws = length xs \<Longrightarrow> \<exists>i<length xs. f (xs ! i) \<noteq> Inr (ws ! i)"
  using mapM_Inr_iff [of f xs ws] by auto

lemma first_success_sorted_Some:
  "sorted (map k xs) \<Longrightarrow> first_success f xs = Some v
   \<Longrightarrow> \<exists>p\<in>set xs. f p = Inr v \<and> (\<forall>q\<in>set xs. k q < k p \<longrightarrow> isl (f q))"
proof (induction xs)
  case Nil
  then show ?case by simp
next
  case (Cons x xs)
  show ?case
  proof (cases "f x")
    case (Inr w)
    with Cons.prems have "f x = Inr v" by simp
    moreover have "\<forall>q\<in>set (x # xs). \<not> k q < k x" using Cons.prems(1) by auto
    ultimately show ?thesis by auto
  next
    case (Inl e)
    with Cons.prems have "first_success f xs = Some v" "sorted (map k xs)" by simp_all
    from Cons.IH [OF this(2) this(1)] obtain p where
      "p \<in> set xs" "f p = Inr v" "\<forall>q\<in>set xs. k q < k p \<longrightarrow> isl (f q)" by blast
    with Inl show ?thesis by auto
  qed
qed

lemma first_success_sorted_eq:
  assumes "sorted (map k ys)" "sorted (map k zs)" "inj k" "set ys = set zs"
  shows "first_success f ys = first_success f zs"
proof (cases "first_success f ys")
  case None
  then have "\<forall>x\<in>set zs. isl (f x)" using assms(4) by (simp add: first_success_None_iff)
  then have "first_success f zs = None" by (simp add: first_success_None_iff)
  with None show ?thesis by simp
next
  case (Some v)
  from first_success_sorted_Some [OF assms(1) Some] obtain p where
    p: "p \<in> set ys" "f p = Inr v" "\<forall>q\<in>set ys. k q < k p \<longrightarrow> isl (f q)" by blast
  have "first_success f zs = Some v"
    using assms(2) assms(3) p assms(4) by (intro first_success_sorted [of k zs p f v]) auto
  with Some show ?thesis by simp
qed

section \<open>Facts about the messages and the reference builtins\<close>

lemma fmt_simps [simp]:
  "fmt B PNone = None" "fmt B (PBool b) = None" "fmt B (PStr s) = None"
  by (simp_all add: fmt_def)

lemma raise_validation_error_simps [simp]:
  "raise_validation_error None m = ValidationError m"
  "raise_validation_error (Some ex) m = ex"
  by (simp_all add: raise_validation_error_def)

lemma bind_simple_type_eq:
  "bind_simple_type B field_data field_type =
     (if py_type field_data = Some field_type then Inr field_data
      else coercion_error B (stringify_bool field_data) field_type
             (coerce B (stringify_bool field_data) field_type))"
  by (simp add: bind_simple_type_def Let_def)

lemma first_error_None_iff: "first_error es = None \<longleftrightarrow> (\<forall>e\<in>set es. e = None)"
  by (induction es rule: first_error.induct) auto

lemma first_success_skip: "isl (f x) \<Longrightarrow> first_success f (x # xs) = first_success f xs"
  by (cases "f x") auto

lemma first_success_drop:
  "isl (f t) \<Longrightarrow> first_success f (xs @ t # ys) = first_success f (xs @ ys)"
  by (induction xs) (auto simp: first_success_skip split: sum.splits)

lemma not_over_limit: "\<bar>n\<bar> < 100 \<Longrightarrow> \<not> over_limit n"
proof -
  assume n: "\<bar>n\<bar> < 100"
  have "(10::int) ^ 2 \<le> 10 ^ 4300" by (rule power_increasing) simp_all
  moreover have "(10::int) ^ 2 = 100" by simp
  ultimately have "(100::int) \<le> 10 ^ 4300" by (simp only:)
  with n have "\<bar>n\<bar> < 10 ^ 4300" by (rule less_le_trans)
  then show ?thesis unfolding over_limit_def by (simp only: not_le)
qed

lemma over_limit_huge: "over_limit huge_int"
  unfolding over_limit_def huge_int_def by (rule abs_ge_self)

lemma ref_fmt_small: "\<bar>n\<bar> < 100 \<Longrightarrow> fmt ref_builtins (PInt n) = None"
  by (simp add: fmt_def ref_builtins_def str_int_def not_over_limit)

lemma ref_fmt_huge: "fmt ref_builtins (PInt huge_int) = Some ValueError"
  by (simp add: fmt_def ref_builtins_def str_int_def over_limit_huge)

lemma ref_fmt_float: "fmt ref_builtins (PFloat f) = None"
  by (simp add: fmt_def ref_builtins_def)

section \<open>Primitive coercion to bool\<close>

text \<open>
  C8. For the target \<^verbatim>\<open>bool\<close>, a bool is returned unchanged; a string whose lower case
  is \<^verbatim>\<open>true\<close> gives True and one whose lower case is \<^verbatim>\<open>false\<close> gives False; every
  other input (an int, 0 and 1 included, a float, any other string, \<^verbatim>\<open>None\<close>, a
  container, an instance) fails: with the ValidationError that names the value and the
  type, or, when the text of the value cannot be built for its message, with the
  exception of building it.
\<close>

theorem bool_target:
  "bind_simple_type B field_data TBool =
     (case field_data of
        Scalar (SBool b) \<Rightarrow> Inr (PBool b)
      | Scalar (SStr s) \<Rightarrow>
          (if lower s = ''true'' then Inr (PBool True)
           else if lower s = ''false'' then Inr (PBool False)
           else Inl (ValidationError (CannotBindValue field_data TBool)))
      | _ \<Rightarrow> Inl (raise_validation_error (fmt B field_data)
                   (CannotBindValue field_data TBool)))"
  by (simp add: bind_simple_type_eq stringify_bool_def coerce_def coercion_error_def
      split: pyval.splits scalar.splits)

text \<open>
  The inputs of the test suite (0.1 is the double 0x3FB999999999999A), and an int of
  4301 digits, which fails with the ValueError of its \<^verbatim>\<open>str\<close>.
\<close>

theorem bool_target_witness:
  "bind_simple_type ref_builtins (PStr ''True'') TBool = Inr (PBool True)
   \<and> bind_simple_type ref_builtins (PStr ''FALSE'') TBool = Inr (PBool False)
   \<and> bind_simple_type ref_builtins (PBool True) TBool = Inr (PBool True)
   \<and> bind_simple_type ref_builtins (PInt 0) TBool
       = Inl (ValidationError (CannotBindValue (PInt 0) TBool))
   \<and> bind_simple_type ref_builtins (PInt 1) TBool
       = Inl (ValidationError (CannotBindValue (PInt 1) TBool))
   \<and> bind_simple_type ref_builtins (PStr ''1'') TBool
       = Inl (ValidationError (CannotBindValue (PStr ''1'') TBool))
   \<and> bind_simple_type ref_builtins (PStr ''0'') TBool
       = Inl (ValidationError (CannotBindValue (PStr ''0'') TBool))
   \<and> bind_simple_type ref_builtins (PStr ''test'') TBool
       = Inl (ValidationError (CannotBindValue (PStr ''test'') TBool))
   \<and> bind_simple_type ref_builtins (PFloat 0x3FB999999999999A) TBool
       = Inl (ValidationError (CannotBindValue (PFloat 0x3FB999999999999A) TBool))
   \<and> bind_simple_type ref_builtins PNone TBool
       = Inl (ValidationError (CannotBindValue PNone TBool))
   \<and> bind_simple_type ref_builtins (PInt huge_int) TBool = Inl ValueError"
  by (simp add: bool_target lower_def lower_char_def char_of_eq_iff ref_fmt_small ref_fmt_huge
      ref_fmt_float)

section \<open>Maps\<close>

text \<open>With string keys and a class as value type, the values are bound one by one.\<close>

lemma bind_dict_class:
  "if_custom_class value_type \<Longrightarrow>
   bind_dict B (PDict kvs) (Prim TStr) value_type =
     (case mapM (\<lambda>x. bind_class B x value_type) (map snd kvs) of
        Inl e \<Rightarrow> Inl e
      | Inr ws \<Rightarrow> Inr (PDict (zip (map fst kvs) ws)))"
  by (simp add: bind_dict.simps mapM_keyed split: sum.splits)

text \<open>
  C7. In a map with string keys, the values are bound against the value type only when
  it is a class: the result then has the same keys in the same order, each with its
  value bound by \<^verbatim>\<open>__bind_class\<close>, and the first value that fails raises its error.
  With any other value type the input is returned as it is, whatever it is: the values
  of a \<^verbatim>\<open>Dict[str, int]\<close> stay the strings they were.
\<close>

theorem map_values:
  "(\<not> if_custom_class value_type \<longrightarrow>
      bind_dict B field_data (Prim TStr) value_type = Inr field_data)
   \<and> (if_custom_class value_type \<longrightarrow>
        (bind_dict B (PDict kvs) (Prim TStr) value_type = Inr r) =
        (\<exists>ws. r = PDict (zip (map fst kvs) ws) \<and> length ws = length kvs
              \<and> (\<forall>i<length kvs. bind_class B (snd (kvs ! i)) value_type = Inr (ws ! i))))
   \<and> (if_custom_class value_type \<and> i < length kvs
        \<and> bind_class B (snd (kvs ! i)) value_type = Inl ex
        \<and> (\<forall>j<i. \<exists>w. bind_class B (snd (kvs ! j)) value_type = Inr w) \<longrightarrow>
        bind_dict B (PDict kvs) (Prim TStr) value_type = Inl ex)
   \<and> bind_dict B (PDict [(PStr ''a'', PStr ''1'')]) (Prim TStr) (Prim TInt)
       = Inr (PDict [(PStr ''a'', PStr ''1'')])"
proof (intro conjI impI)
  assume "\<not> if_custom_class value_type"
  then show "bind_dict B field_data (Prim TStr) value_type = Inr field_data"
    by (simp add: bind_dict.simps)
next
  assume c: "if_custom_class value_type"
  let ?f = "\<lambda>x. bind_class B x value_type"
  let ?R = "\<lambda>ws. r = PDict (zip (map fst kvs) ws) \<and> length ws = length kvs
              \<and> (\<forall>i<length kvs. bind_class B (snd (kvs ! i)) value_type = Inr (ws ! i))"
  show "(bind_dict B (PDict kvs) (Prim TStr) value_type = Inr r) = (\<exists>ws. ?R ws)"
  proof (cases "mapM ?f (map snd kvs)")
    case (Inl e)
    have "\<not> ?R ws" for ws
      using mapM_Inl_no [OF Inl, of ws] by fastforce
    moreover have "bind_dict B (PDict kvs) (Prim TStr) value_type = Inl e"
      unfolding bind_dict_class [OF c] Inl by simp
    ultimately show ?thesis by simp
  next
    case (Inr ys)
    have b: "bind_dict B (PDict kvs) (Prim TStr) value_type = Inr (PDict (zip (map fst kvs) ys))"
      unfolding bind_dict_class [OF c] Inr by simp
    have ys: "length ys = length kvs"
      "\<forall>i<length kvs. bind_class B (snd (kvs ! i)) value_type = Inr (ys ! i)"
      using Inr by (simp_all add: mapM_Inr_iff)
    show ?thesis
    proof
      assume "bind_dict B (PDict kvs) (Prim TStr) value_type = Inr r"
      with b have "r = PDict (zip (map fst kvs) ys)" by simp
      with ys have "?R ys" by simp
      then show "\<exists>ws. ?R ws" ..
    next
      assume "\<exists>ws. ?R ws"
      then obtain ws where ws: "?R ws" ..
      then have "ws = ys" using mapM_unique [OF Inr, of ws] by simp
      with ws b show "bind_dict B (PDict kvs) (Prim TStr) value_type = Inr r" by simp
    qed
  qed
next
  assume a: "if_custom_class value_type \<and> i < length kvs
        \<and> bind_class B (snd (kvs ! i)) value_type = Inl ex
        \<and> (\<forall>j<i. \<exists>w. bind_class B (snd (kvs ! j)) value_type = Inr w)"
  then have "mapM (\<lambda>x. bind_class B x value_type) (map snd kvs) = Inl ex"
    by (intro mapM_Inl_first [of i]) auto
  with a show "bind_dict B (PDict kvs) (Prim TStr) value_type = Inl ex"
    by (simp add: bind_dict_class)
next
  show "bind_dict B (PDict [(PStr ''a'', PStr ''1'')]) (Prim TStr) (Prim TInt)
       = Inr (PDict [(PStr ''a'', PStr ''1'')])" by (simp add: bind_dict.simps)
qed

text \<open>
  The three cases on the reference builtins: strings left as they are under
  \<^verbatim>\<open>Dict[str, int]\<close>, a value bound against a class, and a value that fails.
\<close>

theorem map_values_witness:
  "\<not> if_custom_class (Prim TInt)
   \<and> bind_dict ref_builtins (PDict [(PStr ''a'', PStr ''1''), (PStr ''b'', PInt 2)]) (Prim TStr) (Prim TInt)
     = Inr (PDict [(PStr ''a'', PStr ''1''), (PStr ''b'', PInt 2)])
   \<and> if_custom_class (Class ''Nested'' [(''n'', Prim TInt)])
   \<and> bind_dict ref_builtins (PDict [(PStr ''k'', PDict [(PStr ''n'', PInt 1)])]) (Prim TStr)
        (Class ''Nested'' [(''n'', Prim TInt)])
     = Inr (PDict [(PStr ''k'', PObj ''Nested'' [(''n'', PInt 1)])])
   \<and> bind_dict ref_builtins (PDict [(PStr ''k'', PDict [(PStr ''n'', PNone)])]) (Prim TStr)
        (Class ''Nested'' [(''n'', Prim TBool)])
     = Inl (ValidationError (FailedToBindField ''n''
         (ValidationError (CannotBindValue PNone TBool))))"
  using map_values [of "Prim TInt" ref_builtins "PDict [(PStr ''a'', PStr ''1''), (PStr ''b'', PInt 2)]" "[]" PNone 0 TypeError]
  by (simp add: bind_dict.simps field_error_def bind_simple_type_eq stringify_bool_def coerce_def coercion_error_def)

section \<open>Tuples\<close>

lemma bind_tuple_zip:
  "py_iter field_data = Inr items \<Longrightarrow>
   bind_tuple B field_data args =
     (case mapM (\<lambda>(item, item_type). bind B item item_type) (zip items args) of
        Inl ex \<Rightarrow> Inl ex
      | Inr xs \<Rightarrow> Inr (PTuple xs))"
  by (simp add: bind_tuple.simps)

text \<open>
  C4, as the code has it. \<^verbatim>\<open>__bind_tuple\<close> pairs the input with the element types by
  \<^verbatim>\<open>zip\<close>, which stops at the shorter of the two: the binding succeeds exactly when
  every position below that length binds against its own element type, the result is
  the tuple of these values (of that length), and the first position that fails raises
  its error. Positions past the shorter length are dropped.
\<close>

theorem tuple_positions:
  "py_iter field_data = Inr items \<Longrightarrow>
     ((bind_tuple B field_data args = Inr v) =
      (\<exists>xs. v = PTuple xs \<and> length xs = min (length items) (length args)
            \<and> (\<forall>i<length xs. bind B (items ! i) (args ! i) = Inr (xs ! i))))
   \<and> (i < min (length items) (length args) \<and> bind B (items ! i) (args ! i) = Inl ex
        \<and> (\<forall>j<i. \<exists>x. bind B (items ! j) (args ! j) = Inr x) \<longrightarrow>
        bind_tuple B field_data args = Inl ex)"
proof (intro conjI impI)
  assume it: "py_iter field_data = Inr items"
  let ?f = "\<lambda>(item, item_type). bind B item item_type"
  let ?R = "\<lambda>xs. v = PTuple xs \<and> length xs = min (length items) (length args)
            \<and> (\<forall>i<length xs. bind B (items ! i) (args ! i) = Inr (xs ! i))"
  have R: "(mapM ?f (zip items args) = Inr xs) =
      (length xs = min (length items) (length args)
        \<and> (\<forall>i<length xs. bind B (items ! i) (args ! i) = Inr (xs ! i)))" for xs
    by (auto simp: mapM_Inr_iff)
  show "(bind_tuple B field_data args = Inr v) = (\<exists>xs. ?R xs)"
  proof (cases "mapM ?f (zip items args)")
    case (Inl e)
    have "\<not> ?R xs" for xs using R [of xs] Inl by auto
    moreover have "bind_tuple B field_data args = Inl e"
      unfolding bind_tuple_zip [OF it] Inl by simp
    ultimately show ?thesis by simp
  next
    case (Inr ys)
    have b: "bind_tuple B field_data args = Inr (PTuple ys)"
      unfolding bind_tuple_zip [OF it] Inr by simp
    show ?thesis
    proof
      assume "bind_tuple B field_data args = Inr v"
      with b have "v = PTuple ys" by simp
      with Inr R [of ys] have "?R ys" by simp
      then show "\<exists>xs. ?R xs" ..
    next
      assume "\<exists>xs. ?R xs"
      then obtain xs where xs: "?R xs" ..
      then have "mapM ?f (zip items args) = Inr xs" using R [of xs] by simp
      with Inr have "xs = ys" by simp
      with xs b show "bind_tuple B field_data args = Inr v" by simp
    qed
  qed
next
  assume it: "py_iter field_data = Inr items"
  assume a: "i < min (length items) (length args) \<and> bind B (items ! i) (args ! i) = Inl ex
        \<and> (\<forall>j<i. \<exists>x. bind B (items ! j) (args ! j) = Inr x)"
  then have "mapM (\<lambda>(item, item_type). bind B item item_type) (zip items args) = Inl ex"
    by (intro mapM_Inl_first [of i]) auto
  then show "bind_tuple B field_data args = Inl ex"
    unfolding bind_tuple_zip [OF it] by simp
qed

text \<open>
  The claim that an input of the wrong length does not bind fails in both directions:
  two values against \<^verbatim>\<open>Tuple[int, str, bool]\<close> and three values against
  \<^verbatim>\<open>Tuple[int, str]\<close> both give a tuple of two.
\<close>

theorem tuple_positions_counterexample:
  "length [PInt 1, PStr ''a''] \<noteq> length [Prim TInt, Prim TStr, Prim TBool]
   \<and> bind_tuple ref_builtins (PTuple [PInt 1, PStr ''a'']) [Prim TInt, Prim TStr, Prim TBool]
     = Inr (PTuple [PInt 1, PStr ''a''])
   \<and> length [PInt 1, PStr ''a'', PBool True] \<noteq> length [Prim TInt, Prim TStr]
   \<and> bind_tuple ref_builtins (PList [PInt 1, PStr ''a'', PBool True]) [Prim TInt, Prim TStr]
     = Inr (PTuple [PInt 1, PStr ''a''])"
  by (simp add: bind_tuple.simps bind_simple_type_eq)

text \<open>A short input that binds, and a position that fails.\<close>

theorem tuple_positions_witness:
  "py_iter (PTuple [PInt 1, PStr ''a'']) = Inr [PInt 1, PStr ''a'']
   \<and> bind_tuple ref_builtins (PTuple [PInt 1, PStr ''a'']) [Prim TInt, Prim TStr, Prim TBool]
     = Inr (PTuple [PInt 1, PStr ''a''])
   \<and> bind_tuple ref_builtins (PTuple [PInt 1, PInt 2, PInt 3]) [Prim TInt, Prim TBool, Prim TStr]
     = Inl (ValidationError (CannotBindValue (PInt 2) TBool))"
  using tuple_positions [of "PTuple [PInt 1, PStr ''a'']" "[PInt 1, PStr ''a'']" ref_builtins
      "[Prim TInt, Prim TStr, Prim TBool]" "PTuple [PInt 1, PStr ''a'']" 0 TypeError]
  by (simp add: bind_tuple.simps bind_simple_type_eq stringify_bool_def coerce_def coercion_error_def
      ref_fmt_small)

section \<open>The reference builtins on the inputs used below\<close>

lemma ref_float_two: "float_of_str ref_builtins ''two'' = Inl ValueError"
  by (simp add: ref_builtins_def ref_float_of_str_def digit_val_def)

lemma bitlen_1: "bitlen (Suc 0) = Suc 0"
  by (simp add: bitlen.simps)

lemma ref_float_1: "float_of_str ref_builtins ''1'' = Inr 0x3FF0000000000000"
  by (simp add: ref_builtins_def ref_float_of_str_def digit_val_def double_of_nat_def bitlen_1 negate_float_def)

lemma int_of_float_1: "py_int_of_float 0x3FF0000000000000 = Inr 1"
  by (simp add: py_int_of_float_def float_exp_def float_frac_def float_sign_def)

lemma bind_int_two:
  "bind_simple_type ref_builtins (PStr ''two'') TInt = Inl (ValidationError (CannotBindValue (PStr ''two'') TInt))"
  by (simp add: bind_simple_type_eq stringify_bool_def coerce_def coercion_error_def ref_float_two)

lemma bind_fast_path: "py_type field_data = Some field_type \<Longrightarrow> bind_simple_type B field_data field_type = Inr field_data"
  by (simp add: bind_simple_type_eq)

lemma bind_int_1:
  "bind_simple_type ref_builtins (PStr ''1'') TInt = Inr (PInt 1)"
  by (simp add: bind_simple_type_eq stringify_bool_def coerce_def coercion_error_def ref_float_1 int_of_float_1)

section \<open>Primitive coercion on the inputs used below\<close>

lemma bind_bool_of_int:
  "bind_simple_type B (PInt n) TBool
     = Inl (raise_validation_error (fmt B (PInt n)) (CannotBindValue (PInt n) TBool))"
  by (simp add: bind_simple_type_eq stringify_bool_def coerce_def coercion_error_def)

lemma bind_bool_of_test:
  "bind_simple_type B (PStr ''test'') TBool
     = Inl (ValidationError (CannotBindValue (PStr ''test'') TBool))"
  by (simp add: bind_simple_type_eq stringify_bool_def coerce_def coercion_error_def
      lower_def lower_char_def)

lemma bind_int_of_str_fail:
  "float_of_str B s = Inl ValueError \<Longrightarrow>
   bind_simple_type B (PStr s) TInt = Inl (ValidationError (CannotBindValue (PStr s) TInt))"
  by (simp add: bind_simple_type_eq stringify_bool_def coerce_def coercion_error_def)

lemma bind_bool_of_none:
  "bind_simple_type B PNone TBool = Inl (ValidationError (CannotBindValue PNone TBool))"
  by (simp add: bind_simple_type_eq stringify_bool_def coerce_def coercion_error_def)

lemma bind_int_of_none:
  "bind_simple_type B PNone TInt = Inl (ValidationError (CannotBindValue PNone TInt))"
  by (simp add: bind_simple_type_eq stringify_bool_def coerce_def coercion_error_def)

lemma bind_str_of_none: "bind_simple_type B PNone TStr = Inr (PStr ''None'')"
  by (simp add: bind_simple_type_eq stringify_bool_def coerce_def coercion_error_def)

lemma bind_bool_of_two:
  "bind_simple_type B (PStr ''two'') TBool
     = Inl (ValidationError (CannotBindValue (PStr ''two'') TBool))"
  by (simp add: bind_simple_type_eq stringify_bool_def coerce_def coercion_error_def
      lower_def lower_char_def)

lemma int_of_float_13: "py_int_of_float 0x402A000000000000 = Inr 13"
  by (simp add: py_int_of_float_def float_exp_def float_frac_def float_sign_def)

lemma bind_int_of_bool_fail:
  "float_of_str B (str_bool b) = Inl ValueError \<Longrightarrow>
   bind_simple_type B (PBool b) TInt
     = Inl (ValidationError (CannotBindValue (PStr (str_bool b)) TInt))"
  by (simp add: bind_simple_type_eq stringify_bool_def coerce_def coercion_error_def)

lemma bind_int_of_13:
  "float_of_str B ''13'' = Inr 0x402A000000000000 \<Longrightarrow>
   bind_simple_type B (PStr ''13'') TInt = Inr (PInt 13)"
  by (simp add: bind_simple_type_eq stringify_bool_def coerce_def coercion_error_def int_of_float_13)

lemma bind_bool_of_13:
  "bind_simple_type B (PStr ''13'') TBool
     = Inl (ValidationError (CannotBindValue (PStr ''13'') TBool))"
  by (simp add: bind_simple_type_eq stringify_bool_def coerce_def coercion_error_def
      lower_def lower_char_def)

lemma ref_float_test: "float_of_str ref_builtins ''test'' = Inl ValueError"
  by (simp add: ref_builtins_def ref_float_of_str_def digit_val_def)

lemma bitlen_13: "bitlen 13 = 4"
  by (simp add: bitlen.simps)

lemma ref_float_13: "float_of_str ref_builtins ''13'' = Inr 0x402A000000000000"
  by (simp add: ref_builtins_def ref_float_of_str_def digit_val_def double_of_nat_def bitlen_13 negate_float_def)

lemma ref_float_bool: "float_of_str ref_builtins ''True'' = Inl ValueError"
  "float_of_str ref_builtins ''False'' = Inl ValueError"
  by (simp_all add: ref_builtins_def ref_float_of_str_def digit_val_def)

lemma ref_str_huge: "str_of ref_builtins (PInt huge_int) = Inl ValueError"
  by (simp add: ref_builtins_def str_int_def over_limit_huge)

lemma bind_str_huge: "bind_simple_type ref_builtins (PInt huge_int) TStr = Inl ValueError"
  by (simp add: bind_simple_type_eq stringify_bool_def coerce_def coercion_error_def
      ref_str_huge ref_fmt_huge)

lemma bind_bool_huge: "bind_simple_type ref_builtins (PInt huge_int) TBool = Inl ValueError"
  by (simp add: bind_bool_of_int ref_fmt_huge)

section \<open>Lists and sets\<close>

lemma bind_set_list_items:
  "py_iter field_data = Inr items \<Longrightarrow>
   bind_set_list B field_data origin item_type =
     (case mapM (\<lambda>item. bind B item item_type) items of
        Inl ex \<Rightarrow> Inl ex
      | Inr xs \<Rightarrow> origin xs)"
  by (simp add: bind_set_list.simps)

text \<open>
  C5, as the code has it. For \<^verbatim>\<open>List[t]\<close> and \<^verbatim>\<open>Set[t]\<close> every element of the input is
  bound against the one element type. A list binds exactly when every element does,
  to the list of the bound values in the order of the input; a set is \<^verbatim>\<open>set\<close> of that
  list. The first element that fails ends the binding with its own error, unchanged:
  \<^verbatim>\<open>__bind_set_list\<close> adds nothing to it, and \<^verbatim>\<open>__bind_class\<close> adds the name of the
  field. The index of the element is in neither.
\<close>

theorem collection_elements:
  "py_iter field_data = Inr items \<Longrightarrow>
     ((bind_field B field_data (ListT item_type) = Inr v) =
      (\<exists>xs. v = PList xs \<and> length xs = length items
            \<and> (\<forall>i<length items. bind B (items ! i) item_type = Inr (xs ! i))))
   \<and> (length xs = length items \<and> (\<forall>i<length items. bind B (items ! i) item_type = Inr (xs ! i))
        \<longrightarrow> bind_field B field_data (SetT item_type) = py_set xs)
   \<and> (i < length items \<and> bind B (items ! i) item_type = Inl ex
        \<and> (\<forall>j<i. \<exists>x. bind B (items ! j) item_type = Inr x) \<longrightarrow>
        bind_field B field_data (ListT item_type) = Inl ex
        \<and> bind_field B field_data (SetT item_type) = Inl ex
        \<and> bind_class B (PDict [(PStr field_name, field_data)])
              (Class c [(field_name, ListT item_type)])
            = Inl (ValidationError (FailedToBindField field_name ex)))"
proof (intro conjI impI)
  assume it: "py_iter field_data = Inr items"
  let ?f = "\<lambda>item. bind B item item_type"
  let ?R = "\<lambda>xs. v = PList xs \<and> length xs = length items
            \<and> (\<forall>i<length items. bind B (items ! i) item_type = Inr (xs ! i))"
  show "(bind_field B field_data (ListT item_type) = Inr v) = (\<exists>xs. ?R xs)"
  proof (cases "mapM ?f items")
    case (Inl e)
    have "\<not> ?R xs" for xs using mapM_Inl_no [OF Inl, of xs] by fastforce
    moreover have "bind_field B field_data (ListT item_type) = Inl e"
      by (simp add: bind_set_list_items [OF it] Inl)
    ultimately show ?thesis by simp
  next
    case (Inr ys)
    have b: "bind_field B field_data (ListT item_type) = Inr (PList ys)"
      by (simp add: bind_set_list_items [OF it] Inr)
    have ys: "length ys = length items"
      "\<forall>i<length items. bind B (items ! i) item_type = Inr (ys ! i)"
      using Inr by (simp_all add: mapM_Inr_iff)
    show ?thesis
    proof
      assume "bind_field B field_data (ListT item_type) = Inr v"
      with b have "v = PList ys" by simp
      with ys have "?R ys" by simp
      then show "\<exists>xs. ?R xs" ..
    next
      assume "\<exists>xs. ?R xs"
      then obtain xs where xs: "?R xs" ..
      then have "xs = ys" using mapM_unique [OF Inr, of xs] by simp
      with xs b show "bind_field B field_data (ListT item_type) = Inr v" by simp
    qed
  qed
next
  assume it: "py_iter field_data = Inr items"
  assume "length xs = length items \<and> (\<forall>i<length items. bind B (items ! i) item_type = Inr (xs ! i))"
  then have "mapM (\<lambda>item. bind B item item_type) items = Inr xs"
    by (simp add: mapM_Inr_iff)
  then show "bind_field B field_data (SetT item_type) = py_set xs"
    by (simp add: bind_set_list_items [OF it])
next
  assume it: "py_iter field_data = Inr items"
  assume a: "i < length items \<and> bind B (items ! i) item_type = Inl ex
        \<and> (\<forall>j<i. \<exists>x. bind B (items ! j) item_type = Inr x)"
  then have m: "mapM (\<lambda>item. bind B item item_type) items = Inl ex"
    by (intro mapM_Inl_first [of i]) auto
  then show l: "bind_field B field_data (ListT item_type) = Inl ex"
    by (simp add: bind_set_list_items [OF it])
  from m show "bind_field B field_data (SetT item_type) = Inl ex"
    by (simp add: bind_set_list_items [OF it])
  from l show "bind_class B (PDict [(PStr field_name, field_data)])
              (Class c [(field_name, ListT item_type)])
            = Inl (ValidationError (FailedToBindField field_name ex))"
    by (simp add: field_error_def)
qed

text \<open>
  The claim that the error has the index of the failing element in its path fails: in
  the list of the test suite, the string \<^verbatim>\<open>two\<close> at index 0, 1 or 2 gives the same
  error, which names the field and the value only.
\<close>

theorem collection_elements_counterexample:
  "bind ref_builtins (PDict [(PStr ''field'', PList [PStr ''two'', PStr ''1'', PStr ''1''])])
      (Class ''TestConfigList'' [(''field'', ListT (Prim TInt))])
     = Inl (ValidationError (FailedToBindField ''field''
         (ValidationError (CannotBindValue (PStr ''two'') TInt))))
   \<and> bind ref_builtins (PDict [(PStr ''field'', PList [PStr ''1'', PStr ''two'', PStr ''1''])])
      (Class ''TestConfigList'' [(''field'', ListT (Prim TInt))])
     = Inl (ValidationError (FailedToBindField ''field''
         (ValidationError (CannotBindValue (PStr ''two'') TInt))))
   \<and> bind ref_builtins (PDict [(PStr ''field'', PList [PStr ''1'', PStr ''1'', PStr ''two''])])
      (Class ''TestConfigList'' [(''field'', ListT (Prim TInt))])
     = Inl (ValidationError (FailedToBindField ''field''
         (ValidationError (CannotBindValue (PStr ''two'') TInt))))"
  by (simp add: bind_set_list.simps field_error_def bind_int_two bind_int_1)

text \<open>A list and a set that bind, in order and without the duplicate, and a set that fails.\<close>

theorem collection_elements_witness:
  "py_iter (PList [PStr ''1'', PInt 2, PStr ''1'']) = Inr [PStr ''1'', PInt 2, PStr ''1'']
   \<and> bind_field ref_builtins (PList [PStr ''1'', PInt 2, PStr ''1'']) (ListT (Prim TInt))
     = Inr (PList [PInt 1, PInt 2, PInt 1])
   \<and> bind_field ref_builtins (PList [PStr ''1'', PInt 2, PStr ''1'']) (SetT (Prim TInt))
     = Inr (PSet [PInt 1, PInt 2])
   \<and> bind_field ref_builtins (PList [PStr ''1'', PStr ''two'', PStr ''1'']) (SetT (Prim TInt))
     = Inl (ValidationError (CannotBindValue (PStr ''two'') TInt))"
  using collection_elements [of "PList [PStr ''1'', PInt 2, PStr ''1'']"
      "[PStr ''1'', PInt 2, PStr ''1'']" ref_builtins "Prim TInt" "PList [PInt 1, PInt 2, PInt 1]"
      "[PInt 1, PInt 2, PInt 1]" 0 TypeError "''f''" "''C''"]
  by (simp add: bind_set_list.simps bind_int_two bind_int_1 bind_fast_path py_set_def set_add_def All_less_Suc)

section \<open>Classes\<close>

text \<open>\<^verbatim>\<open>__bind_class\<close> reads its input only by \<^verbatim>\<open>data.get\<close> of the annotated names.\<close>

lemma bind_class_data_cong:
  "(\<And>field_name field_type. (field_name, field_type) \<in> set type_hints
      \<Longrightarrow> dict_get data field_name = dict_get data' field_name)
   \<Longrightarrow> bind_class B data (Class c type_hints) = bind_class B data' (Class c type_hints)"
proof -
  assume eq: "\<And>field_name field_type. (field_name, field_type) \<in> set type_hints
      \<Longrightarrow> dict_get data field_name = dict_get data' field_name"
  have "mapM (\<lambda>(field_name, field_type).
                   field_error field_name
                     (case dict_get data field_name of
                        Inl ex \<Rightarrow> Inl ex
                      | Inr field_data \<Rightarrow> bind_field B field_data field_type)) type_hints
      = mapM (\<lambda>(field_name, field_type).
                   field_error field_name
                     (case dict_get data' field_name of
                        Inl ex \<Rightarrow> Inl ex
                      | Inr field_data \<Rightarrow> bind_field B field_data field_type)) type_hints"
    by (rule mapM_cong) (auto simp: eq)
  then show ?thesis by simp
qed

lemma mapM_field_names:
  "mapM (\<lambda>(field_name, field_type). field_error field_name (g field_name field_type)) type_hints
     = Inr kw_fields \<Longrightarrow> map fst kw_fields = map fst type_hints"
  by (induction type_hints arbitrary: kw_fields)
    (auto simp: field_error_def split: sum.splits)

lemma mapM_field_failure:
  "mapM (\<lambda>(field_name, field_type). field_error field_name (g field_name field_type)) type_hints
     = Inl ex \<Longrightarrow> \<exists>field_name field_type ex'. (field_name, field_type) \<in> set type_hints
            \<and> ex = ValidationError (FailedToBindField field_name ex')"
proof (induction type_hints)
  case Nil
  then show ?case by simp
next
  case (Cons h type_hints)
  obtain n t where h: "h = (n, t)" by (cases h)
  show ?case
  proof (cases "field_error n (g n t)")
    case (Inl e)
    with Cons.prems h have "ex = e" by simp
    moreover from Inl obtain ex' where "e = ValidationError (FailedToBindField n ex')"
      by (auto simp: field_error_def split: sum.splits)
    ultimately show ?thesis using h by auto
  next
    case (Inr y)
    with Cons.prems h have "mapM (\<lambda>(field_name, field_type).
        field_error field_name (g field_name field_type)) type_hints = Inl ex"
      by (simp split: sum.splits)
    from Cons.IH [OF this] show ?thesis by auto
  qed
qed

lemma bind_class_fields:
  "bind_class B data (Class c type_hints) = Inr v
   \<Longrightarrow> \<exists>kw_fields. v = PObj c kw_fields \<and> map fst kw_fields = map fst type_hints"
  by (auto split: sum.splits dest: mapM_field_names)

lemma map_of_filter_keys:
  "k \<in> S \<Longrightarrow> map_of (filter (\<lambda>kv. fst kv \<in> S) kvs) k = map_of kvs k"
  by (induction kvs) auto

lemma field_error_Inr_iff:
  "field_error field_name r = Inr kv \<longleftrightarrow> (\<exists>w. r = Inr w \<and> kv = (field_name, w))"
  by (cases r) (auto simp: field_error_def)

lemma mapM_Inl_at:
  "i < length xs \<Longrightarrow> isl (f (xs ! i)) \<Longrightarrow> isl (mapM f xs)"
  by (cases "mapM f xs") (auto simp: mapM_Inr_iff)

text \<open>
  C9. A field whose name is not a key of the input dict is bound against \<^verbatim>\<open>None\<close>: the
  lookup gives \<^verbatim>\<open>None\<close> and no error, and the binding of the whole class is what it
  would be with the key present and \<^verbatim>\<open>None\<close> as its value. For every class and every
  field of it, at any position: if the class binds, the field has the value that
  \<^verbatim>\<open>None\<close> binds to against the type of the field; if \<^verbatim>\<open>None\<close> does not bind against that
  type, the class does not bind, and when the fields before it bind, the error is the
  error of binding \<^verbatim>\<open>None\<close>, under the name of the field. For a class of this one field
  the binding succeeds or fails as the binding of \<^verbatim>\<open>None\<close> against its type does.
\<close>

theorem missing_field:
  "map_of kvs (PStr field_name) = None \<Longrightarrow>
     dict_get (PDict kvs) field_name = Inr PNone
   \<and> bind_class B (PDict kvs) (Class c type_hints)
       = bind_class B (PDict ((PStr field_name, PNone) # kvs)) (Class c type_hints)
   \<and> bind_class B (PDict kvs) (Class c [(field_name, field_type)])
       = (case bind_field B PNone field_type of
            Inl ex \<Rightarrow> Inl (ValidationError (FailedToBindField field_name ex))
          | Inr v \<Rightarrow> Inr (PObj c [(field_name, v)]))
   \<and> (i < length type_hints \<and> type_hints ! i = (field_name, field_type) \<longrightarrow>
        (\<forall>v. bind_class B (PDict kvs) (Class c type_hints) = Inr v \<longrightarrow>
           (\<exists>kw_fields w. v = PObj c kw_fields \<and> length kw_fields = length type_hints
              \<and> kw_fields ! i = (field_name, w) \<and> bind_field B PNone field_type = Inr w))
        \<and> (isl (bind_field B PNone field_type) \<longrightarrow>
             isl (bind_class B (PDict kvs) (Class c type_hints)))
        \<and> (\<forall>ex. bind_field B PNone field_type = Inl ex
              \<and> (\<forall>j<i. \<exists>x w. dict_get (PDict kvs) (fst (type_hints ! j)) = Inr x
                        \<and> bind_field B x (snd (type_hints ! j)) = Inr w) \<longrightarrow>
             bind_class B (PDict kvs) (Class c type_hints)
               = Inl (ValidationError (FailedToBindField field_name ex))))"
proof (intro conjI impI allI)
  assume a: "map_of kvs (PStr field_name) = None"
  then show "dict_get (PDict kvs) field_name = Inr PNone" by simp
  show "bind_class B (PDict kvs) (Class c type_hints)
       = bind_class B (PDict ((PStr field_name, PNone) # kvs)) (Class c type_hints)"
    by (rule bind_class_data_cong) (use a in auto)
  from a show "bind_class B (PDict kvs) (Class c [(field_name, field_type)])
       = (case bind_field B PNone field_type of
            Inl ex \<Rightarrow> Inl (ValidationError (FailedToBindField field_name ex))
          | Inr v \<Rightarrow> Inr (PObj c [(field_name, v)]))"
    by (simp add: field_error_def split: sum.splits)
next
  let ?F = "\<lambda>(field_name, field_type).
              field_error field_name
                (case dict_get (PDict kvs) field_name of
                   Inl ex \<Rightarrow> Inl ex
                 | Inr field_data \<Rightarrow> bind_field B field_data field_type)"
  assume a: "map_of kvs (PStr field_name) = None"
  assume i: "i < length type_hints \<and> type_hints ! i = (field_name, field_type)"
  from a i have Fi: "?F (type_hints ! i) = field_error field_name (bind_field B PNone field_type)"
    by simp
  {
    fix v
    assume "bind_class B (PDict kvs) (Class c type_hints) = Inr v"
    then obtain kw_fields where kw: "mapM ?F type_hints = Inr kw_fields" "v = PObj c kw_fields"
      by (auto split: sum.splits)
    from kw(1) have len: "length kw_fields = length type_hints"
      and all: "\<forall>j<length type_hints. ?F (type_hints ! j) = Inr (kw_fields ! j)"
      by (simp_all add: mapM_Inr_iff)
    from all i Fi have "field_error field_name (bind_field B PNone field_type) = Inr (kw_fields ! i)"
      by auto
    then obtain w where "bind_field B PNone field_type = Inr w" "kw_fields ! i = (field_name, w)"
      by (auto simp: field_error_Inr_iff)
    with kw(2) len
    show "\<exists>kw_fields w. v = PObj c kw_fields \<and> length kw_fields = length type_hints
              \<and> kw_fields ! i = (field_name, w) \<and> bind_field B PNone field_type = Inr w"
      by blast
  }
  {
    assume "isl (bind_field B PNone field_type)"
    then have "isl (?F (type_hints ! i))"
      unfolding Fi by (cases "bind_field B PNone field_type") (auto simp: field_error_def)
    with i have "isl (mapM ?F type_hints)" by (intro mapM_Inl_at [of i]) auto
    then show "isl (bind_class B (PDict kvs) (Class c type_hints))"
      by (cases "mapM ?F type_hints") auto
  }
  {
    fix ex
    assume b: "bind_field B PNone field_type = Inl ex
              \<and> (\<forall>j<i. \<exists>x w. dict_get (PDict kvs) (fst (type_hints ! j)) = Inr x
                        \<and> bind_field B x (snd (type_hints ! j)) = Inr w)"
    have before: "\<forall>j<i. \<exists>y. ?F (type_hints ! j) = Inr y"
    proof (intro allI impI)
      fix j
      assume "j < i"
      with b obtain x w where "dict_get (PDict kvs) (fst (type_hints ! j)) = Inr x"
        "bind_field B x (snd (type_hints ! j)) = Inr w" by blast
      then show "\<exists>y. ?F (type_hints ! j) = Inr y"
        by (cases "type_hints ! j") (simp add: field_error_def)
    qed
    from b Fi have "?F (type_hints ! i) = Inl (ValidationError (FailedToBindField field_name ex))"
      by (simp add: field_error_def)
    with i before have "mapM ?F type_hints = Inl (ValidationError (FailedToBindField field_name ex))"
      by (intro mapM_Inl_first [of i]) auto
    then show "bind_class B (PDict kvs) (Class c type_hints)
               = Inl (ValidationError (FailedToBindField field_name ex))"
      by simp
  }
qed

text \<open>
  A class of two fields whose second is missing: an \<^verbatim>\<open>Optional[bool]\<close> field binds to
  \<^verbatim>\<open>None\<close>, a \<^verbatim>\<open>bool\<close> field fails.
\<close>

theorem missing_field_witness:
  "map_of [(PStr ''a'', PInt 1)] (PStr ''b'') = None
   \<and> bind_class ref_builtins (PDict [(PStr ''a'', PInt 1)])
        (Class ''C'' [(''a'', Prim TInt), (''b'', UnionT [Prim TBool, Prim TNoneType])])
     = Inr (PObj ''C'' [(''a'', PInt 1), (''b'', PNone)])
   \<and> bind_field ref_builtins PNone (Prim TBool)
     = Inl (ValidationError (CannotBindValue PNone TBool))
   \<and> bind_class ref_builtins (PDict [(PStr ''a'', PInt 1)])
        (Class ''C'' [(''a'', Prim TInt), (''b'', Prim TBool)])
     = Inl (ValidationError (FailedToBindField ''b''
         (ValidationError (CannotBindValue PNone TBool))))
   \<and> bind_class ref_builtins (PDict [(PStr ''a'', PInt 1)]) (Class ''C'' [(''b'', Prim TBool)])
     = Inl (ValidationError (FailedToBindField ''b''
         (ValidationError (CannotBindValue PNone TBool))))"
  using missing_field [of "[(PStr ''a'', PInt 1)]" "''b''" ref_builtins "''C''"
      "[(''a'', Prim TInt), (''b'', Prim TBool)]" "Prim TBool" 1]
  by (simp add: bind_union.simps field_error_def bind_fast_path bind_bool_of_none)

text \<open>
  C10. The entries of the input dict whose keys are not annotated names are ignored:
  the result, a value or an error, is the one of the dict without them; an error is
  always the failure of an annotated field; and the instance has exactly the annotated
  fields, in their order.
\<close>

theorem extra_keys:
  "bind_class B (PDict kvs) (Class c type_hints)
     = bind_class B (PDict (filter (\<lambda>kv. fst kv \<in> PStr ` fst ` set type_hints) kvs)) (Class c type_hints)
   \<and> (\<forall>ex. bind_class B (PDict kvs) (Class c type_hints) = Inl ex \<longrightarrow>
         (\<exists>field_name field_type ex'. (field_name, field_type) \<in> set type_hints
            \<and> ex = ValidationError (FailedToBindField field_name ex')))
   \<and> (\<forall>v. bind_class B (PDict kvs) (Class c type_hints) = Inr v \<longrightarrow>
         (\<exists>kw_fields. v = PObj c kw_fields \<and> map fst kw_fields = map fst type_hints))"
proof (intro conjI allI impI)
  show "bind_class B (PDict kvs) (Class c type_hints)
     = bind_class B (PDict (filter (\<lambda>kv. fst kv \<in> PStr ` fst ` set type_hints) kvs)) (Class c type_hints)"
  proof (rule bind_class_data_cong)
    fix field_name field_type
    assume "(field_name, field_type) \<in> set type_hints"
    then have "PStr field_name \<in> PStr ` fst ` set type_hints" by force
    then show "dict_get (PDict kvs) field_name =
        dict_get (PDict (filter (\<lambda>kv. fst kv \<in> PStr ` fst ` set type_hints) kvs)) field_name"
      by (simp add: map_of_filter_keys)
  qed
next
  fix v
  assume "bind_class B (PDict kvs) (Class c type_hints) = Inr v"
  then show "\<exists>kw_fields. v = PObj c kw_fields \<and> map fst kw_fields = map fst type_hints"
    by (rule bind_class_fields)
next
  fix ex
  assume "bind_class B (PDict kvs) (Class c type_hints) = Inl ex"
  then have "mapM (\<lambda>(field_name, field_type).
                   field_error field_name
                     (case dict_get (PDict kvs) field_name of
                        Inl ex \<Rightarrow> Inl ex
                      | Inr field_data \<Rightarrow> bind_field B field_data field_type)) type_hints = Inl ex"
    by (simp split: sum.splits)
  then show "\<exists>field_name field_type ex'. (field_name, field_type) \<in> set type_hints
            \<and> ex = ValidationError (FailedToBindField field_name ex')"
    by (rule mapM_field_failure)
qed

text \<open>Two keys the class does not declare, one of them with a list as value.\<close>

theorem extra_keys_witness:
  "bind_class ref_builtins
        (PDict [(PInt 1, PStr ''junk''), (PStr ''a'', PInt 1), (PStr ''y'', PList [])])
        (Class ''C'' [(''a'', Prim TInt)])
     = Inr (PObj ''C'' [(''a'', PInt 1)])
   \<and> bind_class ref_builtins (PDict [(PStr ''a'', PInt 1)]) (Class ''C'' [(''a'', Prim TInt)])
     = Inr (PObj ''C'' [(''a'', PInt 1)])"
  using extra_keys [of ref_builtins
      "[(PInt 1, PStr ''junk''), (PStr ''a'', PInt 1), (PStr ''y'', PList [])]"
      "''C''" "[(''a'', Prim TInt)]"]
  by (simp add: field_error_def bind_simple_type_eq)

section \<open>Unions\<close>

text \<open>
  Sorting the primitive alternatives by their index in \<^verbatim>\<open>primitive_types\<close> tries them
  as the members of \<^verbatim>\<open>primitive_types\<close> that are alternatives, in the order of that list.
\<close>

lemma primitives_of_iff: "p \<in> set (primitives_of field_types) \<longleftrightarrow> Prim p \<in> set field_types"
  by (induction field_types rule: primitives_of.induct) auto

lemma inj_primitive_index: "inj primitive_index"
proof (rule injI)
  fix p q
  assume "primitive_index p = primitive_index q"
  then show "p = q" by (cases p; cases q) simp_all
qed

lemma primitive_order:
  "first_success f (sort_key primitive_index (primitives_of field_types)) =
   first_success f (filter (\<lambda>p. Prim p \<in> set field_types) [TBool, TInt, TFloat, TNoneType, TStr])"
proof (rule first_success_sorted_eq [of primitive_index])
  show "sorted (map primitive_index (sort_key primitive_index (primitives_of field_types)))"
    by (rule sorted_sort_key)
  show "sorted (map primitive_index
      (filter (\<lambda>p. Prim p \<in> set field_types) [TBool, TInt, TFloat, TNoneType, TStr]))"
    by (rule sorted_filter) simp
  show "inj primitive_index" by (rule inj_primitive_index)
  show "set (sort_key primitive_index (primitives_of field_types)) =
      set (filter (\<lambda>p. Prim p \<in> set field_types) [TBool, TInt, TFloat, TNoneType, TStr])"
  proof (rule set_eqI)
    fix p
    show "p \<in> set (sort_key primitive_index (primitives_of field_types)) \<longleftrightarrow>
        p \<in> set (filter (\<lambda>p. Prim p \<in> set field_types) [TBool, TInt, TFloat, TNoneType, TStr])"
      by (cases p) (simp_all add: primitives_of_iff)
  qed
qed

text \<open>
  C1. \<^verbatim>\<open>__bind_union\<close> has two phases. First the alternatives that are not primitive
  types are bound as classes, in the order they are declared, and the first that binds
  is the result. If none does, the primitive alternatives are tried in the order bool,
  int, float, NoneType, str, whatever the order they are declared in, and the first
  that binds is the result. For \<^verbatim>\<open>Union[int, str, bool]\<close>: 23 gives the int 23, True
  gives the bool True, and \<^verbatim>\<open>test\<close> gives the string \<^verbatim>\<open>test\<close>, since \<^verbatim>\<open>float\<close> rejects it.
\<close>

theorem union_phases:
  "bind_union B field_data field_types =
     (case first_success (\<lambda>field_type. bind_class B field_data field_type)
             (filter (\<lambda>ft. \<not> is_primitive ft) field_types) of
        Some v \<Rightarrow> Inr v
      | None \<Rightarrow>
          (case first_success (\<lambda>primitive_field_type.
                                 bind_simple_type B field_data primitive_field_type)
                  (filter (\<lambda>p. Prim p \<in> set field_types)
                     [TBool, TInt, TFloat, TNoneType, TStr]) of
             Some v \<Rightarrow> Inr v
           | None \<Rightarrow>
               (if Prim TStr \<in> set field_types then Inr field_data
                else Inl (raise_validation_error
                            (first_error (fmt B field_data # map (repr_type B) field_types))
                            (CannotBindUnion field_data field_types)))))
   \<and> bind_union B (PInt 23) [Prim TInt, Prim TStr, Prim TBool] = Inr (PInt 23)
   \<and> (float_of_str B ''test'' = Inl ValueError \<longrightarrow>
        bind_union B (PStr ''test'') [Prim TInt, Prim TStr, Prim TBool] = Inr (PStr ''test''))
   \<and> bind_union B (PBool True) [Prim TInt, Prim TStr, Prim TBool] = Inr (PBool True)"
proof (intro conjI impI)
  show "bind_union B field_data field_types =
     (case first_success (\<lambda>field_type. bind_class B field_data field_type)
             (filter (\<lambda>ft. \<not> is_primitive ft) field_types) of
        Some v \<Rightarrow> Inr v
      | None \<Rightarrow>
          (case first_success (\<lambda>primitive_field_type.
                                 bind_simple_type B field_data primitive_field_type)
                  (filter (\<lambda>p. Prim p \<in> set field_types)
                     [TBool, TInt, TFloat, TNoneType, TStr]) of
             Some v \<Rightarrow> Inr v
           | None \<Rightarrow>
               (if Prim TStr \<in> set field_types then Inr field_data
                else Inl (raise_validation_error
                            (first_error (fmt B field_data # map (repr_type B) field_types))
                            (CannotBindUnion field_data field_types)))))"
    unfolding bind_union.simps primitive_order ..
  show "bind_union B (PInt 23) [Prim TInt, Prim TStr, Prim TBool] = Inr (PInt 23)"
    by (simp add: bind_union.simps bind_bool_of_int bind_fast_path)
  show "bind_union B (PBool True) [Prim TInt, Prim TStr, Prim TBool] = Inr (PBool True)"
    by (simp add: bind_union.simps bind_fast_path)
next
  assume "float_of_str B ''test'' = Inl ValueError"
  then show "bind_union B (PStr ''test'') [Prim TInt, Prim TStr, Prim TBool] = Inr (PStr ''test'')"
    by (simp add: bind_union.simps bind_bool_of_test bind_int_of_str_fail bind_fast_path)
qed

text \<open>
  The string alternative declared first is still tried last: \<^verbatim>\<open>true\<close> binds to the
  bool. Of the classes, the first that binds wins, before any primitive type.
\<close>

theorem union_phases_witness:
  "float_of_str ref_builtins ''test'' = Inl ValueError
   \<and> bind_union ref_builtins (PStr ''test'') [Prim TInt, Prim TStr, Prim TBool] = Inr (PStr ''test'')
   \<and> bind_union ref_builtins (PStr ''test'') [Prim TStr, Prim TBool, Prim TInt] = Inr (PStr ''test'')
   \<and> bind_union ref_builtins (PStr ''true'') [Prim TStr, Prim TBool, Prim TInt] = Inr (PBool True)
   \<and> bind_union ref_builtins (PDict [])
        [Prim TStr, Class ''A'' [(''x'', Prim TInt)], Class ''E'' [], Class ''F'' []]
     = Inr (PObj ''E'' [])"
  using union_phases [of ref_builtins "PStr ''test''" "[Prim TStr, Prim TBool, Prim TInt]"]
    union_phases [of ref_builtins "PStr ''true''" "[Prim TStr, Prim TBool, Prim TInt]"]
    union_phases [of ref_builtins "PDict []"
      "[Prim TStr, Class ''A'' [(''x'', Prim TInt)], Class ''E'' [], Class ''F'' []]"]
  by (simp add: ref_float_test bind_bool_of_test bind_int_of_str_fail bind_fast_path
      field_error_def bind_simple_type_eq stringify_bool_def coerce_def coercion_error_def
      lower_def lower_char_def)

text \<open>
  C2, as the code has it. When no alternative binds and \<^verbatim>\<open>str\<close> is among the
  alternatives, \<^verbatim>\<open>__bind_union\<close> returns the input itself, unchanged and not converted:
  it is then not a string, since a string binds to \<^verbatim>\<open>str\<close>. When \<^verbatim>\<open>str\<close> is not among
  the alternatives the binding fails, and when the text of the input and of the
  alternatives can be built for the message, the error is the ValidationError that
  names the input and all the alternatives. \<^verbatim>\<open>None\<close> against \<^verbatim>\<open>Union[int, str, bool]\<close>
  gives the string \<^verbatim>\<open>None\<close>, and not by this rule: \<^verbatim>\<open>None\<close> binds to \<^verbatim>\<open>str\<close> in the second
  phase, by the coercion \<^verbatim>\<open>str(None)\<close>.
\<close>

theorem union_fallback:
  "((\<forall>t\<in>set field_types. \<not> is_primitive t \<longrightarrow> isl (bind_class B field_data t))
      \<and> (\<forall>p. Prim p \<in> set field_types \<longrightarrow> isl (bind_simple_type B field_data p)) \<longrightarrow>
      (Prim TStr \<in> set field_types \<longrightarrow>
         bind_union B field_data field_types = Inr field_data
         \<and> py_type field_data \<noteq> Some TStr)
      \<and> (Prim TStr \<notin> set field_types \<longrightarrow>
           bind_union B field_data field_types
             = Inl (raise_validation_error
                      (first_error (fmt B field_data # map (repr_type B) field_types))
                      (CannotBindUnion field_data field_types))
           \<and> (fmt B field_data = None \<and> (\<forall>t\<in>set field_types. repr_type B t = None) \<longrightarrow>
                bind_union B field_data field_types
                  = Inl (ValidationError (CannotBindUnion field_data field_types)))))
   \<and> bind_simple_type B PNone TStr = Inr (PStr ''None'')
   \<and> bind_union B PNone [Prim TInt, Prim TStr, Prim TBool] = Inr (PStr ''None'')"
proof (intro conjI impI)
  assume a: "(\<forall>t\<in>set field_types. \<not> is_primitive t \<longrightarrow> isl (bind_class B field_data t))
      \<and> (\<forall>p. Prim p \<in> set field_types \<longrightarrow> isl (bind_simple_type B field_data p))"
  then have 1: "first_success (\<lambda>field_type. bind_class B field_data field_type)
      (filter (\<lambda>ft. \<not> is_primitive ft) field_types) = None"
    by (simp add: first_success_None_iff)
  from a have 2: "first_success (\<lambda>primitive_field_type.
      bind_simple_type B field_data primitive_field_type)
      (sort_key primitive_index (primitives_of field_types)) = None"
    by (simp add: first_success_None_iff primitives_of_iff)
  {
    assume s: "Prim TStr \<in> set field_types"
    with 1 2 show "bind_union B field_data field_types = Inr field_data"
      by (simp add: bind_union.simps)
    from a s have "isl (bind_simple_type B field_data TStr)" by blast
    then show "py_type field_data \<noteq> Some TStr" by (auto simp: bind_fast_path)
  }
  {
    assume s: "Prim TStr \<notin> set field_types"
    with 1 2 show "bind_union B field_data field_types
             = Inl (raise_validation_error
                      (first_error (fmt B field_data # map (repr_type B) field_types))
                      (CannotBindUnion field_data field_types))"
      by (simp add: bind_union.simps)
    assume "fmt B field_data = None \<and> (\<forall>t\<in>set field_types. repr_type B t = None)"
    then have "first_error (fmt B field_data # map (repr_type B) field_types) = None"
      by (simp add: first_error_None_iff)
    with 1 2 s show "bind_union B field_data field_types
                  = Inl (ValidationError (CannotBindUnion field_data field_types))"
      by (simp add: bind_union.simps)
  }
next
  show "bind_simple_type B PNone TStr = Inr (PStr ''None'')"
    by (rule bind_str_of_none)
  show "bind_union B PNone [Prim TInt, Prim TStr, Prim TBool] = Inr (PStr ''None'')"
    by (simp add: bind_union.simps bind_bool_of_none bind_int_of_none bind_str_of_none)
qed

text \<open>
  The claim that the input is returned as a string fails: an int of 4301 digits binds
  neither to \<^verbatim>\<open>bool\<close> nor to \<^verbatim>\<open>str\<close> (its \<^verbatim>\<open>str\<close> raises), and \<^verbatim>\<open>Union[bool, str]\<close>
  returns it as the int it is.
\<close>

theorem union_fallback_counterexample:
  "bind_simple_type ref_builtins (PInt huge_int) TBool = Inl ValueError
   \<and> bind_simple_type ref_builtins (PInt huge_int) TStr = Inl ValueError
   \<and> bind_union ref_builtins (PInt huge_int) [Prim TBool, Prim TStr] = Inr (PInt huge_int)
   \<and> py_type (PInt huge_int) = Some TInt"
  by (simp add: bind_union.simps bind_bool_huge bind_str_huge)

text \<open>
  The same int through the theorem, and the string \<^verbatim>\<open>two\<close>, which fails against
  \<^verbatim>\<open>Union[int, bool]\<close> with the ValidationError.
\<close>

theorem union_fallback_witness:
  "isl (bind_simple_type ref_builtins (PInt huge_int) TBool)
   \<and> isl (bind_simple_type ref_builtins (PInt huge_int) TStr)
   \<and> bind_union ref_builtins (PInt huge_int) [Prim TBool, Prim TStr] = Inr (PInt huge_int)
   \<and> py_type (PInt huge_int) \<noteq> Some TStr
   \<and> isl (bind_simple_type ref_builtins (PStr ''two'') TBool)
   \<and> isl (bind_simple_type ref_builtins (PStr ''two'') TInt)
   \<and> fmt ref_builtins (PStr ''two'') = None
   \<and> bind_union ref_builtins (PStr ''two'') [Prim TInt, Prim TBool]
     = Inl (ValidationError (CannotBindUnion (PStr ''two'') [Prim TInt, Prim TBool]))"
  using union_fallback [of "[Prim TBool, Prim TStr]" ref_builtins "PInt huge_int"]
    union_fallback [of "[Prim TInt, Prim TBool]" ref_builtins "PStr ''two''"]
  by (simp add: bind_bool_huge bind_str_huge bind_bool_of_two bind_int_of_str_fail
      ref_float_two)

section \<open>The key type of a map\<close>

lemma dict_field_class_fails:
  "key_type \<noteq> Prim TStr \<Longrightarrow>
   isl (bind_class B field_data (Class c [(field_name, DictT key_type value_type)]))"
  by (cases "dict_get field_data field_name") (simp_all add: field_error_def bind_dict.simps)

lemma primitives_of_drop:
  "\<not> is_primitive t \<Longrightarrow> primitives_of (xs @ t # ys) = primitives_of (xs @ ys)"
  by (induction xs rule: primitives_of.induct) (cases t; simp)+

lemma bind_union_Inr_iff:
  "bind_union B field_data field_types = Inr v \<longleftrightarrow>
     (case first_success (\<lambda>field_type. bind_class B field_data field_type)
             (filter (\<lambda>ft. \<not> is_primitive ft) field_types) of
        Some w \<Rightarrow> v = w
      | None \<Rightarrow>
          (case first_success (\<lambda>primitive_field_type.
                                 bind_simple_type B field_data primitive_field_type)
                  (sort_key primitive_index (primitives_of field_types)) of
             Some w \<Rightarrow> v = w
           | None \<Rightarrow> Prim TStr \<in> set field_types \<and> v = field_data))"
  by (auto simp: bind_union.simps split: option.splits)

text \<open>
  C6, as the code has it. A map whose declared key type is not \<^verbatim>\<open>str\<close> is rejected
  before the input is looked at: whatever the input is, \<^verbatim>\<open>__bind_dict\<close> raises the
  ValidationError that names the key type, and \<^verbatim>\<open>__bind_class\<close> wraps it with the name
  of the field as it wraps every other exception of a field. The error is a
  ValidationError, the class of the errors of values, and a Union drops it as it drops
  every other failure of an alternative: with a class that has such a field among its
  alternatives, at any place, a Union binds to what it binds to without it.
\<close>

theorem dict_key_type:
  "key_type \<noteq> Prim TStr \<Longrightarrow>
     bind_dict B field_data key_type value_type = Inl (ValidationError (OnlyStrKeys key_type))
   \<and> is_validation_error (ValidationError (OnlyStrKeys key_type))
   \<and> bind_field B field_data (DictT key_type value_type)
       = Inl (ValidationError (OnlyStrKeys key_type))
   \<and> bind_class B (PDict kvs) (Class c [(field_name, DictT key_type value_type)])
       = Inl (ValidationError (FailedToBindField field_name
               (ValidationError (OnlyStrKeys key_type))))
   \<and> (bind_union B field_data
          (pre @ Class c [(field_name, DictT key_type value_type)] # post) = Inr v
        \<longleftrightarrow> bind_union B field_data (pre @ post) = Inr v)"
proof (intro conjI)
  assume k: "key_type \<noteq> Prim TStr"
  then show "bind_dict B field_data key_type value_type
      = Inl (ValidationError (OnlyStrKeys key_type))"
    by (simp add: bind_dict.simps)
  show "is_validation_error (ValidationError (OnlyStrKeys key_type))" by simp
  from k show "bind_field B field_data (DictT key_type value_type)
       = Inl (ValidationError (OnlyStrKeys key_type))"
    by (simp add: bind_dict.simps)
  from k show "bind_class B (PDict kvs) (Class c [(field_name, DictT key_type value_type)])
       = Inl (ValidationError (FailedToBindField field_name
               (ValidationError (OnlyStrKeys key_type))))"
    by (simp add: bind_dict.simps field_error_def split: option.splits)
  let ?bad = "Class c [(field_name, DictT key_type value_type)]"
  from k have "isl (bind_class B field_data ?bad)" by (rule dict_field_class_fails)
  then have "first_success (\<lambda>field_type. bind_class B field_data field_type)
        (filter (\<lambda>ft. \<not> is_primitive ft) (pre @ ?bad # post))
      = first_success (\<lambda>field_type. bind_class B field_data field_type)
        (filter (\<lambda>ft. \<not> is_primitive ft) (pre @ post))"
    by (simp add: first_success_drop)
  moreover have "primitives_of (pre @ ?bad # post) = primitives_of (pre @ post)"
    by (rule primitives_of_drop) simp
  moreover have "Prim TStr \<in> set (pre @ ?bad # post) \<longleftrightarrow> Prim TStr \<in> set (pre @ post)"
    by auto
  ultimately show "bind_union B field_data (pre @ ?bad # post) = Inr v
        \<longleftrightarrow> bind_union B field_data (pre @ post) = Inr v"
    by (simp only: bind_union_Inr_iff)
qed

text \<open>
  \<^verbatim>\<open>Dict[int, Nested]\<close> on the dict of the test suite and on \<^verbatim>\<open>None\<close>: the same error.
  A Union with such a class before a class that binds: the result of the second.
\<close>

theorem dict_key_type_witness:
  "Prim TInt \<noteq> Prim TStr
   \<and> bind_dict ref_builtins (PDict [(PInt 1, PDict [(PStr ''n'', PInt 123)])]) (Prim TInt)
        (Class ''Nested'' [(''n'', Prim TInt)])
     = Inl (ValidationError (OnlyStrKeys (Prim TInt)))
   \<and> bind_dict ref_builtins PNone (Prim TInt) (Class ''Nested'' [(''n'', Prim TInt)])
     = Inl (ValidationError (OnlyStrKeys (Prim TInt)))
   \<and> bind_union ref_builtins (PDict [(PStr ''field'', PDict [])]) [Class ''Empty'' []]
     = Inr (PObj ''Empty'' [])
   \<and> bind_union ref_builtins (PDict [(PStr ''field'', PDict [])])
        [Class ''Bad'' [(''field'', DictT (Prim TInt) (Prim TInt))], Class ''Empty'' []]
     = Inr (PObj ''Empty'' [])"
  using dict_key_type [of "Prim TInt" ref_builtins _ "Class ''Nested'' [(''n'', Prim TInt)]"]
    dict_key_type [of "Prim TInt" ref_builtins "PDict [(PStr ''field'', PDict [])]" "Prim TInt"
      "[]" "''Bad''" "''field''" "[]" "[Class ''Empty'' []]" "PObj ''Empty'' []"]
  by (simp add: bind_dict.simps bind_union.simps)

text \<open>
  The claim that this error is of another kind than the error of a value, and cannot be
  recovered from, fails: it is a ValidationError, as the error of binding the string
  \<^verbatim>\<open>two\<close> to \<^verbatim>\<open>bool\<close> is, and a Union whose first alternative is a class with a
  \<^verbatim>\<open>Dict[int, int]\<close> field drops it and binds the next alternative.
\<close>

theorem dict_key_type_counterexample:
  "bind_dict ref_builtins (PDict [(PInt 1, PDict [(PStr ''n'', PInt 123)])]) (Prim TInt)
        (Class ''Nested'' [(''n'', Prim TInt)])
     = Inl (ValidationError (OnlyStrKeys (Prim TInt)))
   \<and> is_validation_error (ValidationError (OnlyStrKeys (Prim TInt)))
   \<and> bind_simple_type ref_builtins (PStr ''two'') TBool
     = Inl (ValidationError (CannotBindValue (PStr ''two'') TBool))
   \<and> is_validation_error (ValidationError (CannotBindValue (PStr ''two'') TBool))
   \<and> bind_union ref_builtins (PDict [(PStr ''field'', PDict [])])
        [Class ''Bad'' [(''field'', DictT (Prim TInt) (Prim TInt))], Class ''Empty'' []]
     = Inr (PObj ''Empty'' [])"
  by (simp add: bind_dict.simps bind_union.simps field_error_def bind_bool_of_two)

section \<open>Literals\<close>

lemma literal_loop_skip:
  "(\<forall>c\<in>set pre. \<forall>w. bind_simple_type B field_data (scalar_type c) = Inr w
      \<longrightarrow> \<not> py_val_eq w (Scalar c))
   \<Longrightarrow> literal_loop B field_data (pre @ args) = literal_loop B field_data args"
  by (induction pre) (auto split: sum.splits)

text \<open>
  C3, on the code. \<^verbatim>\<open>__bind_literal\<close> goes through the allowed values in the order they
  are declared: the input is coerced to the type of the candidate by the primitive
  coercion, and the first candidate whose coerced input equals it gives the result,
  the coerced input. If there is none, the code raises the ValidationError that names
  the input and all the allowed values, after it has built the message: when the text
  of the input or of an allowed value cannot be built, the exception of \<^verbatim>\<open>str\<close> leaves
  the function in its place. For \<^verbatim>\<open>Literal[1, 2, 3, 5, 8, 13, False]\<close>: 5 gives 5; \<^verbatim>\<open>13\<close>
  gives 13, \<^verbatim>\<open>float\<close> reading it as 13.0; False gives the bool False; 33 and True fail
  (\<^verbatim>\<open>float\<close> rejecting \<^verbatim>\<open>True\<close> and \<^verbatim>\<open>False\<close>). An int of 4301 digits against
  \<^verbatim>\<open>Literal[True, False]\<close> matches no candidate, and what is raised is the ValueError of
  \<^verbatim>\<open>str\<close>, which is not a ValidationError and names nothing.
\<close>

theorem literal_candidates:
  "(args = pre @ a # post
      \<and> (\<forall>c\<in>set pre. \<forall>w. bind_simple_type B field_data (scalar_type c) = Inr w
            \<longrightarrow> \<not> py_val_eq w (Scalar c))
      \<and> bind_simple_type B field_data (scalar_type a) = Inr v \<and> py_val_eq v (Scalar a) \<longrightarrow>
      bind_literal B field_data args = Inr v)
   \<and> ((\<forall>c\<in>set args. \<forall>w. bind_simple_type B field_data (scalar_type c) = Inr w
            \<longrightarrow> \<not> py_val_eq w (Scalar c)) \<longrightarrow>
      bind_literal B field_data args
        = Inl (raise_validation_error
                 (first_error (fmt B field_data # map (repr_scalar B) args))
                 (CannotBindLiteral field_data args)))
   \<and> bind_literal B (PInt 5) [SInt 1, SInt 2, SInt 3, SInt 5, SInt 8, SInt 13, SBool False]
       = Inr (PInt 5)
   \<and> (float_of_str B ''13'' = Inr 0x402A000000000000 \<longrightarrow>
        bind_literal B (PStr ''13'') [SInt 1, SInt 2, SInt 3, SInt 5, SInt 8, SInt 13, SBool False]
          = Inr (PInt 13))
   \<and> (float_of_str B ''False'' = Inl ValueError \<longrightarrow>
        bind_literal B (PBool False) [SInt 1, SInt 2, SInt 3, SInt 5, SInt 8, SInt 13, SBool False]
          = Inr (PBool False))
   \<and> isl (bind_literal B (PInt 33) [SInt 1, SInt 2, SInt 3, SInt 5, SInt 8, SInt 13, SBool False])
   \<and> (float_of_str B ''True'' = Inl ValueError \<longrightarrow>
        isl (bind_literal B (PBool True)
               [SInt 1, SInt 2, SInt 3, SInt 5, SInt 8, SInt 13, SBool False]))
   \<and> bind_literal ref_builtins (PInt 33)
        [SInt 1, SInt 2, SInt 3, SInt 5, SInt 8, SInt 13, SBool False]
       = Inl (ValidationError (CannotBindLiteral (PInt 33)
               [SInt 1, SInt 2, SInt 3, SInt 5, SInt 8, SInt 13, SBool False]))
   \<and> bind_literal ref_builtins (PBool True)
        [SInt 1, SInt 2, SInt 3, SInt 5, SInt 8, SInt 13, SBool False]
       = Inl (ValidationError (CannotBindLiteral (PBool True)
               [SInt 1, SInt 2, SInt 3, SInt 5, SInt 8, SInt 13, SBool False]))
   \<and> literal_loop ref_builtins (PInt huge_int) [SBool True, SBool False] = None
   \<and> bind_literal ref_builtins (PInt huge_int) [SBool True, SBool False] = Inl ValueError
   \<and> \<not> is_validation_error ValueError"
proof (intro conjI impI)
  assume a: "args = pre @ a # post
      \<and> (\<forall>c\<in>set pre. \<forall>w. bind_simple_type B field_data (scalar_type c) = Inr w
            \<longrightarrow> \<not> py_val_eq w (Scalar c))
      \<and> bind_simple_type B field_data (scalar_type a) = Inr v \<and> py_val_eq v (Scalar a)"
  then have "literal_loop B field_data args = literal_loop B field_data (a # post)"
    by (simp add: literal_loop_skip)
  also from a have "\<dots> = Some v" by simp
  finally show "bind_literal B field_data args = Inr v" by (simp add: bind_literal_def)
next
  assume "\<forall>c\<in>set args. \<forall>w. bind_simple_type B field_data (scalar_type c) = Inr w
            \<longrightarrow> \<not> py_val_eq w (Scalar c)"
  then have "literal_loop B field_data (args @ []) = literal_loop B field_data []"
    by (rule literal_loop_skip)
  then show "bind_literal B field_data args
      = Inl (raise_validation_error
                 (first_error (fmt B field_data # map (repr_scalar B) args))
                 (CannotBindLiteral field_data args))"
    by (simp add: bind_literal_def)
next
  show "bind_literal B (PInt 5) [SInt 1, SInt 2, SInt 3, SInt 5, SInt 8, SInt 13, SBool False]
       = Inr (PInt 5)"
    by (simp add: bind_literal_def bind_fast_path)
  have l33: "literal_loop B (PInt 33)
      [SInt 1, SInt 2, SInt 3, SInt 5, SInt 8, SInt 13, SBool False] = None" for B
    by (simp add: bind_fast_path bind_bool_of_int)
  then show "isl (bind_literal B (PInt 33)
      [SInt 1, SInt 2, SInt 3, SInt 5, SInt 8, SInt 13, SBool False])"
    by (simp add: bind_literal_def)
  from l33 show "bind_literal ref_builtins (PInt 33)
        [SInt 1, SInt 2, SInt 3, SInt 5, SInt 8, SInt 13, SBool False]
       = Inl (ValidationError (CannotBindLiteral (PInt 33)
               [SInt 1, SInt 2, SInt 3, SInt 5, SInt 8, SInt 13, SBool False]))"
    by (simp add: bind_literal_def ref_fmt_small repr_scalar_def)
  have "bind_simple_type ref_builtins (PBool True) TInt
     = Inl (ValidationError (CannotBindValue (PStr (str_bool True)) TInt))"
    by (intro bind_int_of_bool_fail) (simp add: str_bool_def ref_float_bool)
  then show "bind_literal ref_builtins (PBool True)
        [SInt 1, SInt 2, SInt 3, SInt 5, SInt 8, SInt 13, SBool False]
       = Inl (ValidationError (CannotBindLiteral (PBool True)
               [SInt 1, SInt 2, SInt 3, SInt 5, SInt 8, SInt 13, SBool False]))"
    by (simp add: bind_literal_def bind_fast_path ref_fmt_small repr_scalar_def)
  show h: "literal_loop ref_builtins (PInt huge_int) [SBool True, SBool False] = None"
    by (simp add: bind_bool_huge)
  then show "bind_literal ref_builtins (PInt huge_int) [SBool True, SBool False] = Inl ValueError"
    by (simp add: bind_literal_def ref_fmt_huge)
  show "\<not> is_validation_error ValueError" by simp
next
  assume "float_of_str B ''13'' = Inr 0x402A000000000000"
  then show "bind_literal B (PStr ''13'') [SInt 1, SInt 2, SInt 3, SInt 5, SInt 8, SInt 13, SBool False]
          = Inr (PInt 13)"
    by (simp add: bind_literal_def bind_int_of_13)
next
  assume "float_of_str B ''False'' = Inl ValueError"
  then have "bind_simple_type B (PBool False) TInt
     = Inl (ValidationError (CannotBindValue (PStr (str_bool False)) TInt))"
    by (intro bind_int_of_bool_fail) (simp add: str_bool_def)
  then show "bind_literal B (PBool False) [SInt 1, SInt 2, SInt 3, SInt 5, SInt 8, SInt 13, SBool False]
          = Inr (PBool False)"
    by (simp add: bind_literal_def bind_fast_path)
next
  assume "float_of_str B ''True'' = Inl ValueError"
  then have "bind_simple_type B (PBool True) TInt
     = Inl (ValidationError (CannotBindValue (PStr (str_bool True)) TInt))"
    by (intro bind_int_of_bool_fail) (simp add: str_bool_def)
  then show "isl (bind_literal B (PBool True)
               [SInt 1, SInt 2, SInt 3, SInt 5, SInt 8, SInt 13, SBool False])"
    by (simp add: bind_literal_def bind_fast_path)
qed

text \<open>
  On the reference builtins; and a string candidate found after a bool candidate that
  does not match, before an int candidate that would; and no candidate at all.
\<close>

theorem literal_candidates_witness:
  "float_of_str ref_builtins ''13'' = Inr 0x402A000000000000
   \<and> float_of_str ref_builtins ''True'' = Inl ValueError
   \<and> float_of_str ref_builtins ''False'' = Inl ValueError
   \<and> bind_literal ref_builtins (PStr ''13'') [SInt 1, SInt 2, SInt 3, SInt 5, SInt 8, SInt 13, SBool False]
       = Inr (PInt 13)
   \<and> bind_literal ref_builtins (PBool False) [SInt 1, SInt 2, SInt 3, SInt 5, SInt 8, SInt 13, SBool False]
       = Inr (PBool False)
   \<and> isl (bind_literal ref_builtins (PBool True)
            [SInt 1, SInt 2, SInt 3, SInt 5, SInt 8, SInt 13, SBool False])
   \<and> bind_literal ref_builtins (PStr ''13'') [SBool True, SStr ''13'', SInt 13] = Inr (PStr ''13'')
   \<and> bind_literal ref_builtins (PStr ''13'') [] = Inl (ValidationError (CannotBindLiteral (PStr ''13'') []))"
  using literal_candidates [of "[SBool True, SStr ''13'', SInt 13]" "[SBool True]" "SStr ''13''"
      "[SInt 13]" ref_builtins "PStr ''13''" "PStr ''13''"]
    literal_candidates [of "[]" "[]" SNone "[]" ref_builtins "PStr ''13''" PNone]
  by (simp add: ref_float_13 ref_float_bool bind_bool_of_13 bind_fast_path)

end
